theory Spec2Isabelle
  imports Main "HOL-Library.AList"
begin

section \<open>The benchmark harness of \<^verbatim>\<open>binaries/benchmark_helper.cc\<close>\<close>

text \<open>
  A shallow embedding of the functions of \<^verbatim>\<open>binaries/benchmark_helper.cc\<close>:
  \<^verbatim>\<open>backendCudaSet\<close>, \<^verbatim>\<open>setDeviceType\<close>, \<^verbatim>\<open>setOperatorEngine\<close>,
  \<^verbatim>\<open>loadInput\<close>, \<^verbatim>\<open>runNetwork\<close> and \<^verbatim>\<open>writeOutput\<close>.

  Conventions.
  \<^item> A C++ function that mutates an object through a pointer or reference takes the
    object and returns the new one.
  \<^item> A function that can throw returns a pair: \<open>Inl e\<close> for the exception or \<open>Inr r\<close>
    for the normal return, and the state of the mutated objects at that moment, so that
    what was done before a throw stays visible.
  \<^item> \<^verbatim>\<open>#ifdef __CUDA_ARCH__\<close> is the boolean parameter \<open>cuda_compiled\<close>.
  \<^item> Collaborators defined outside the file (the execution engine, the file readers
    and encoders, the integer parser) are parameters of the functions that call them.
\<close>

subsection \<open>Errors\<close>

text \<open>
  \<^verbatim>\<open>CAFFE_THROW\<close> and a failed \<^verbatim>\<open>CAFFE_ENFORCE\<close> throw \<^verbatim>\<open>caffe2::EnforceNotMet\<close>; the
  string is the message given by the caller, its arguments concatenated (the prefix with
  file, line and failed condition that the macro adds is left out). A failed
  \<^verbatim>\<open>CHECK_NOTNULL\<close> aborts the process; an exception of a collaborator is passed on.
\<close>

datatype error =
    EnforceNotMet string
  | CheckFailed string
  | External string

type_synonym 'a result = "error + 'a"

subsection \<open>The graph definition\<close>

text \<open>
  Modelled from the spec: the protobuf messages \<^verbatim>\<open>NetDef\<close>, \<^verbatim>\<open>OperatorDef\<close> and
  \<^verbatim>\<open>DeviceOption\<close> (generated from caffe2.proto, which is not under src/). A graph
  definition is an ordered sequence of operator records; each has an engine tag, a
  device-type tag inside its device option, and its own parameters, opaque here (the
  fields \<open>dev_other\<close>, \<open>op_other\<close>, \<open>net_other\<close>). The optional strings \<^verbatim>\<open>engine\<close> and
  \<^verbatim>\<open>name\<close> are \<open>None\<close> while unset, so that an engine left unset differs from the
  explicit empty engine. The sub-message \<^verbatim>\<open>device_option\<close> is a field that is always
  there: an absent sub-message reads as the default instance, and
  \<^verbatim>\<open>mutable_device_option()\<close> hands out the sub-message in place.
\<close>

type_synonym DeviceType = int

record 'x DeviceOption =
  device_type :: DeviceType
  dev_other :: 'x

record 'x OperatorDef =
  engine :: "string option"
  device_option :: "'x DeviceOption"
  op_other :: 'x

record 'x NetDef =
  name :: "string option"
  op :: "'x OperatorDef list"
  net_other :: 'x

definition op_size :: "'x NetDef \<Rightarrow> nat" where
  "op_size net_def = length (op net_def)"

text \<open>\<^verbatim>\<open>net_def->mutable_op(j)\<close> followed by a write \<open>f\<close> to the operator it returns.\<close>

definition mutable_op :: "'x NetDef \<Rightarrow> nat \<Rightarrow> ('x OperatorDef \<Rightarrow> 'x OperatorDef) \<Rightarrow> 'x NetDef" where
  "mutable_op net_def j f = net_def\<lparr>op := (op net_def)[j := f (op net_def ! j)]\<rparr>"

definition set_device_type :: "DeviceType \<Rightarrow> 'x OperatorDef \<Rightarrow> 'x OperatorDef" where
  "set_device_type run_dev opd =
     opd\<lparr>device_option := (device_option opd)\<lparr>device_type := run_dev\<rparr>\<rparr>"

definition set_engine :: "string \<Rightarrow> 'x OperatorDef \<Rightarrow> 'x OperatorDef" where
  "set_engine e opd = opd\<lparr>engine := Some e\<rparr>"

subsection \<open>backendCudaSet\<close>

text \<open>
  \<^verbatim>\<open>bool backendCudaSet(const string& backend)\<close>. The parameter \<open>has_cuda_gpu\<close> is the
  answer of \<^verbatim>\<open>caffe2::HasCudaGPU()\<close>. The function receives no graph definition; the
  one of the harness is threaded through to state what the call leaves of it.
\<close>

definition backendCudaSet ::
  "bool \<Rightarrow> bool \<Rightarrow> string \<Rightarrow> 'x NetDef \<Rightarrow> bool result \<times> 'x NetDef" where
  "backendCudaSet cuda_compiled has_cuda_gpu backend net_def =
     (if backend = ''cuda'' then
        (if cuda_compiled then
           (if has_cuda_gpu then (Inr True, net_def)
            else (Inl (EnforceNotMet ''NO GPU support on this host machine''), net_def))
         else (Inl (EnforceNotMet ''NO GPU support''), net_def))
      else (Inr False, net_def))"

subsection \<open>setDeviceType\<close>

text \<open>The loop \<^verbatim>\<open>for (int j = 0; j < net_def->op_size(); j++)\<close>, from index \<open>j\<close> on.\<close>

function setDeviceType_loop :: "nat \<Rightarrow> 'x NetDef \<Rightarrow> DeviceType \<Rightarrow> 'x NetDef" where
  "setDeviceType_loop j net_def run_dev =
     (if j < op_size net_def
      then setDeviceType_loop (j + 1) (mutable_op net_def j (set_device_type run_dev)) run_dev
      else net_def)"
  by pat_completeness auto
termination
  by (relation "measure (\<lambda>(j, net_def, run_dev). op_size net_def - j)")
     (auto simp: op_size_def mutable_op_def)

declare setDeviceType_loop.simps [simp del]

definition setDeviceType :: "'x NetDef \<Rightarrow> DeviceType \<Rightarrow> 'x NetDef" where
  "setDeviceType net_def run_dev = setDeviceType_loop 0 net_def run_dev"

subsection \<open>setOperatorEngine\<close>

function setOperatorEngine_loop :: "nat \<Rightarrow> 'x NetDef \<Rightarrow> string \<Rightarrow> 'x NetDef" where
  "setOperatorEngine_loop i net_def e =
     (if i < op_size net_def
      then setOperatorEngine_loop (i + 1) (mutable_op net_def i (set_engine e)) e
      else net_def)"
  by pat_completeness auto
termination
  by (relation "measure (\<lambda>(i, net_def, e). op_size net_def - i)")
     (auto simp: op_size_def mutable_op_def)

declare setOperatorEngine_loop.simps [simp del]

definition engine_of_backend :: "string \<Rightarrow> string" where
  "engine_of_backend backend =
     (if backend = ''nnpack'' then ''NNPACK''
      else if backend = ''eigen'' then ''EIGEN''
      else if backend = ''mkl'' then ''MKLDNN''
      else if backend = ''cuda'' then ''CUDA''
      else if backend = ''default'' then ''''
      else ''NONE'')"

definition setOperatorEngine :: "'x NetDef \<Rightarrow> string \<Rightarrow> unit result \<times> 'x NetDef" where
  "setOperatorEngine net_def backend =
     (if backend \<noteq> ''builtin'' then
        (let e = engine_of_backend backend in
         if \<not> (e \<noteq> ''NONE'') then (Inl (EnforceNotMet ''Backend is not supported''), net_def)
         else (Inr (), setOperatorEngine_loop 0 net_def e))
      else (Inr (), net_def))"

subsection \<open>Printing integers in messages\<close>

text \<open>
  An \<^verbatim>\<open>int\<close> argument of \<^verbatim>\<open>CAFFE_ENFORCE\<close> is written into the message through
  \<^verbatim>\<open>operator<<\<close>: decimal digits, with a leading minus sign when negative.
\<close>

definition digit_char :: "nat \<Rightarrow> char" where
  "digit_char d = ''0123456789'' ! d"

function nat_digits :: "nat \<Rightarrow> string" where
  "nat_digits n = (if n < 10 then [digit_char n] else nat_digits (n div 10) @ [digit_char (n mod 10)])"
  by pat_completeness auto
termination
  by (relation "measure id") auto

declare nat_digits.simps [simp del]

definition int_string :: "int \<Rightarrow> string" where
  "int_string i = (if i < 0 then CHR ''-'' # nat_digits (nat (- i)) else nat_digits (nat i))"

subsection \<open>runNetwork\<close>

text \<open>
  Modelled from the spec: \<^verbatim>\<open>caffe2::ObserverConfig::initSampleRate\<close> (declared in
  \<^verbatim>\<open>observers/observer_config.h\<close>, not under src/) stores its five arguments in the
  process-wide sample-rate state, which the observer attached to the net reads at each
  run; it checks nothing and cannot fail.
\<close>

record SampleRate =
  netInitSampleRate :: int
  netFollowupSampleRate :: int
  netFollowupSampleCount :: int
  operatorNetSampleRatio :: int
  skipIters :: int

text \<open>
  The state \<^verbatim>\<open>runNetwork\<close> works on: the graph definition (passed by reference), the
  workspace together with the net instantiated in it (opaque, type \<open>'w\<close>), the sample-rate
  state, and \<open>run_log\<close>, which records every invocation of \<^verbatim>\<open>net->Run()\<close> by the
  sample-rate state it ran under, oldest first.

  The engine is a pair of parameters: \<open>CreateNet net_def w\<close> is \<open>None\<close> when
  \<^verbatim>\<open>workspace->CreateNet\<close> returns a null pointer and otherwise the workspace holding the
  net; \<open>Run sr w\<close> is one blocking call of \<^verbatim>\<open>net->Run()\<close> under sample rate \<open>sr\<close>, giving
  its boolean result and the workspace after it.
\<close>

record ('x, 'w) RunState =
  rs_net_def :: "'x NetDef"
  rs_workspace :: 'w
  rs_sample_rate :: SampleRate
  run_log :: "SampleRate list"

definition initSampleRate ::
  "int \<Rightarrow> int \<Rightarrow> int \<Rightarrow> int \<Rightarrow> int \<Rightarrow> ('x, 'w) RunState \<Rightarrow> ('x, 'w) RunState" where
  "initSampleRate a b c d e s =
     s\<lparr>rs_sample_rate := \<lparr>netInitSampleRate = a, netFollowupSampleRate = b,
          netFollowupSampleCount = c, operatorNetSampleRatio = d, skipIters = e\<rparr>\<rparr>"

definition net_Run ::
  "(SampleRate \<Rightarrow> 'w \<Rightarrow> bool \<times> 'w) \<Rightarrow> ('x, 'w) RunState \<Rightarrow> bool \<times> ('x, 'w) RunState" where
  "net_Run Run s =
     (case Run (rs_sample_rate s) (rs_workspace s) of
        (ok, w) \<Rightarrow> (ok, s\<lparr>rs_workspace := w, run_log := run_log s @ [rs_sample_rate s]\<rparr>))"

text \<open>
  The loop \<^verbatim>\<open>for (int i = 0; i < warmup; ++i)\<close>, from \<open>i\<close> on. The counters are C
  \<^verbatim>\<open>int\<close>s; \<open>i\<close> stays below \<open>warmup\<close>, so \<^verbatim>\<open>++i\<close> never overflows and \<open>int\<close> is exact.
\<close>

function warmup_loop ::
  "(SampleRate \<Rightarrow> 'w \<Rightarrow> bool \<times> 'w) \<Rightarrow> int \<Rightarrow> int \<Rightarrow> ('x, 'w) RunState
     \<Rightarrow> unit result \<times> ('x, 'w) RunState" where
  "warmup_loop Run i warmup s =
     (if i < warmup then
        (case net_Run Run s of
           (ok, s1) \<Rightarrow>
             if \<not> ok then
               (Inl (EnforceNotMet (''Warmup run '' @ int_string i @ '' has failed.'')), s1)
             else warmup_loop Run (i + 1) warmup s1)
      else (Inr (), s))"
  by pat_completeness auto
termination
  by (relation "measure (\<lambda>(Run, i, warmup, s). nat (warmup - i))") auto

declare warmup_loop.simps [simp del]

function main_loop ::
  "(SampleRate \<Rightarrow> 'w \<Rightarrow> bool \<times> 'w) \<Rightarrow> bool \<Rightarrow> int \<Rightarrow> int \<Rightarrow> int \<Rightarrow> ('x, 'w) RunState
     \<Rightarrow> unit result \<times> ('x, 'w) RunState" where
  "main_loop Run run_individual warmup i iter s =
     (if i < iter then
        (case net_Run Run (initSampleRate 1 1 1 0 warmup s) of
           (ok, s1) \<Rightarrow>
             if \<not> ok then
               (Inl (EnforceNotMet (''Main run '' @ int_string i @ '' has failed.'')), s1)
             else if run_individual then
               (case net_Run Run (initSampleRate 1 1 1 1 warmup s1) of
                  (ok2, s2) \<Rightarrow>
                    if \<not> ok2 then
                      (Inl (EnforceNotMet
                         (''Main run '' @ int_string i @ '' with operator has failed.'')), s2)
                    else main_loop Run run_individual warmup (i + 1) iter s2)
             else main_loop Run run_individual warmup (i + 1) iter s1)
      else (Inr (), s))"
  by pat_completeness auto
termination
  by (relation "measure (\<lambda>(Run, run_individual, warmup, i, iter, s). nat (iter - i))") auto

declare main_loop.simps [simp del]

text \<open>\<^verbatim>\<open>if (!net_def.has_name()) { net_def.set_name("benchmark"); }\<close>\<close>

definition set_default_name :: "('x, 'w) RunState \<Rightarrow> ('x, 'w) RunState" where
  "set_default_name s =
     (if name (rs_net_def s) = None
      then s\<lparr>rs_net_def := (rs_net_def s)\<lparr>name := Some ''benchmark''\<rparr>\<rparr> else s)"

definition runNetwork ::
  "('x NetDef \<Rightarrow> 'w \<Rightarrow> 'w option) \<Rightarrow> (SampleRate \<Rightarrow> 'w \<Rightarrow> bool \<times> 'w)
     \<Rightarrow> ('x, 'w) RunState \<Rightarrow> bool \<Rightarrow> int \<Rightarrow> int \<Rightarrow> unit result \<times> ('x, 'w) RunState" where
  "runNetwork CreateNet Run s run_individual warmup iter =
     (let s1 = set_default_name s
      in case CreateNet (rs_net_def s1) (rs_workspace s1) of
           None \<Rightarrow> (Inl (CheckFailed ''net''), s1)
         | Some w \<Rightarrow>
             (case warmup_loop Run 0 warmup
                     (initSampleRate 1 1 1 (if run_individual then 1 else 0) warmup
                        (s1\<lparr>rs_workspace := w\<rparr>)) of
                (Inl e, s2) \<Rightarrow> (Inl e, s2)
              | (Inr u, s2) \<Rightarrow>
                  if \<not> iter \<ge> 0 then
                    (Inl (EnforceNotMet
                       (''Number of main runs should be non negative, provided ''
                          @ int_string iter @ ''.'')), s2)
                  else main_loop Run run_individual warmup 0 iter s2))"

subsection \<open>Splitting strings\<close>

text \<open>
  Modelled from the spec: \<^verbatim>\<open>caffe2::split\<close> (\<^verbatim>\<open>caffe2/utils/string_utils\<close>, not under
  src/) cuts a separator-delimited string into its ordered pieces. It reads the pieces
  with \<^verbatim>\<open>std::getline\<close> until a read fails: a read that ends at a separator gives a
  piece (empty when nothing precedes the separator), a read that ends at the end of
  the string gives a piece only if it has read a character. So the empty string has no
  piece, and a separator at the very end adds no empty piece. \<open>split_from\<close> reads one
  character at a time; \<open>item\<close> is the piece read so far.
\<close>

fun split_from :: "char \<Rightarrow> string \<Rightarrow> string \<Rightarrow> string list" where
  "split_from separator item [] = (if item = [] then [] else [item])"
| "split_from separator item (c # cs) =
     (if c = separator then item # split_from separator [] cs
      else split_from separator (item @ [c]) cs)"

definition split :: "char \<Rightarrow> string \<Rightarrow> string list" where
  "split separator s = split_from separator [] s"

subsection \<open>Tensors, blobs and the workspace\<close>

text \<open>
  Modelled from the spec: \<^verbatim>\<open>Tensor\<close>, \<^verbatim>\<open>Blob\<close> and \<^verbatim>\<open>Workspace\<close> (caffe2/core, not
  under src/). A tensor is a shape and an element type (its buffer is not modelled;
  the harness never reads it). A fresh tensor has no dimensions and no element type.
  A blob is empty or holds one object: a host tensor, an accelerator tensor, or
  something else (opaque). \<^verbatim>\<open>GetMutable<T>()\<close> gives the held object when it is a \<open>T\<close>
  and otherwise replaces the content by a fresh \<open>T\<close>; \<^verbatim>\<open>Resize\<close> sets the shape;
  \<^verbatim>\<open>mutable_data<T>()\<close> sets the element type (and allocates).

  The workspace maps blob names to blobs; it is an association list with one entry for
  each name, so that \<^verbatim>\<open>Blobs()\<close> can list the names. \<^verbatim>\<open>GetBlob\<close> gives \<open>None\<close> for the
  null pointer. \<^verbatim>\<open>CreateBlob\<close> adds an empty blob unless the name has a blob already,
  which it then leaves as it is. \<open>put_blob\<close> is a write through the \<^verbatim>\<open>Blob*\<close> of a name.
\<close>

datatype ElemType = UInt8 | Float | OtherElem string

record Tensor =
  dims :: "int list"
  elem_type :: "ElemType option"

datatype Blob = EmptyBlob | TensorCPU Tensor | TensorCUDA Tensor | OtherBlob string

type_synonym Workspace = "(string \<times> Blob) list"

definition GetBlob :: "Workspace \<Rightarrow> string \<Rightarrow> Blob option" where
  "GetBlob ws blob_name = map_of ws blob_name"

definition HasBlob :: "Workspace \<Rightarrow> string \<Rightarrow> bool" where
  "HasBlob ws blob_name = (GetBlob ws blob_name \<noteq> None)"

definition CreateBlob :: "Workspace \<Rightarrow> string \<Rightarrow> Workspace" where
  "CreateBlob ws blob_name =
     (if HasBlob ws blob_name then ws else ws @ [(blob_name, EmptyBlob)])"

definition Blobs :: "Workspace \<Rightarrow> string list" where
  "Blobs ws = map fst ws"

definition put_blob :: "string \<Rightarrow> Blob \<Rightarrow> Workspace \<Rightarrow> Workspace" where
  "put_blob blob_name b ws = AList.update blob_name b ws"

definition new_Tensor :: Tensor where
  "new_Tensor = \<lparr>dims = [], elem_type = None\<rparr>"

definition GetMutable_TensorCPU :: "Blob \<Rightarrow> Tensor" where
  "GetMutable_TensorCPU b = (case b of TensorCPU t \<Rightarrow> t | _ \<Rightarrow> new_Tensor)"

definition GetMutable_TensorCUDA :: "Blob \<Rightarrow> Tensor" where
  "GetMutable_TensorCUDA b = (case b of TensorCUDA t \<Rightarrow> t | _ \<Rightarrow> new_Tensor)"

definition Resize :: "int list \<Rightarrow> Tensor \<Rightarrow> Tensor" where
  "Resize ds t = t\<lparr>dims := ds\<rparr>"

definition mutable_data :: "ElemType \<Rightarrow> Tensor \<Rightarrow> Tensor" where
  "mutable_data ty t = t\<lparr>elem_type := Some ty\<rparr>"

subsection \<open>loadInput\<close>

text \<open>
  The parser \<^verbatim>\<open>caffe2::stoi\<close> is a parameter \<open>stoi\<close>: \<open>None\<close> when it throws. The inner
  loop \<^verbatim>\<open>for (const string& s : input_dims_str) input_dims.push_back(caffe2::stoi(s))\<close>
  stops at the first piece that does not parse.
\<close>

fun parse_dims :: "(string \<Rightarrow> int option) \<Rightarrow> string list \<Rightarrow> int list option" where
  "parse_dims stoi [] = Some []"
| "parse_dims stoi (s # ss) =
     (case stoi s of
        None \<Rightarrow> None
      | Some d \<Rightarrow> (case parse_dims stoi ss of None \<Rightarrow> None | Some ds \<Rightarrow> Some (d # ds)))"

text \<open>
  The body of the shape/type loop for one input: parse the dimension group, fetch or
  create the blob, then resize and type its tensor on the side \<open>run_on_gpu\<close> selects.
  \<^verbatim>\<open>CHECK_NOTNULL(tensor)\<close> cannot fail, since \<^verbatim>\<open>GetMutable\<close> never gives a null pointer.
\<close>

definition load_dims_body ::
  "bool \<Rightarrow> (string \<Rightarrow> int option) \<Rightarrow> bool \<Rightarrow> string \<Rightarrow> string \<Rightarrow> string \<Rightarrow> Workspace
     \<Rightarrow> unit result \<times> Workspace" where
  "load_dims_body cuda_compiled stoi run_on_gpu input_name dims_str type_str ws =
     (case parse_dims stoi (split CHR '','' dims_str) of
        None \<Rightarrow> (Inl (External ''stoi''), ws)
      | Some input_dims \<Rightarrow>
          (let ws1 = (case GetBlob ws input_name of
                        None \<Rightarrow> CreateBlob ws input_name
                      | Some b \<Rightarrow> ws);
               blob = (case GetBlob ws1 input_name of None \<Rightarrow> EmptyBlob | Some b \<Rightarrow> b)
           in if run_on_gpu then
                (if cuda_compiled then
                   (let tensor = Resize input_dims (GetMutable_TensorCUDA blob);
                        ws2 = put_blob input_name (TensorCUDA tensor) ws1
                    in if type_str = ''uint8_t'' then
                         (Inr (), put_blob input_name (TensorCUDA (mutable_data UInt8 tensor)) ws2)
                       else if type_str = ''float'' then
                         (Inr (), put_blob input_name (TensorCUDA (mutable_data Float tensor)) ws2)
                       else (Inl (EnforceNotMet (''Unsupported input type: '' @ type_str)), ws2))
                 else (Inl (EnforceNotMet ''Not support GPU on mobile.''), ws1))
              else
                (let tensor = Resize input_dims (GetMutable_TensorCPU blob);
                     ws2 = put_blob input_name (TensorCPU tensor) ws1
                 in if type_str = ''uint8_t'' then
                      (Inr (), put_blob input_name (TensorCPU (mutable_data UInt8 tensor)) ws2)
                    else if type_str = ''float'' then
                      (Inr (), put_blob input_name (TensorCPU (mutable_data Float tensor)) ws2)
                    else (Inl (EnforceNotMet (''Unsupported input type: '' @ type_str)), ws2))))"

text \<open>The loop \<^verbatim>\<open>for (size_t i = 0; i < input_names.size(); ++i)\<close>, from \<open>i\<close> on.\<close>

function load_dims_loop ::
  "bool \<Rightarrow> (string \<Rightarrow> int option) \<Rightarrow> bool \<Rightarrow> string list \<Rightarrow> string list \<Rightarrow> string list
     \<Rightarrow> nat \<Rightarrow> Workspace \<Rightarrow> unit result \<times> Workspace" where
  "load_dims_loop cuda_compiled stoi run_on_gpu input_names input_dims_list input_type_list i ws =
     (if i < length input_names then
        (case load_dims_body cuda_compiled stoi run_on_gpu
                (input_names ! i) (input_dims_list ! i) (input_type_list ! i) ws of
           (Inl e, ws1) \<Rightarrow> (Inl e, ws1)
         | (Inr u, ws1) \<Rightarrow>
             load_dims_loop cuda_compiled stoi run_on_gpu
               input_names input_dims_list input_type_list (i + 1) ws1)
      else (Inr (), ws))"
  by pat_completeness auto
termination
  by (relation "measure (\<lambda>(c, p, g, input_names, ds, ts, i, ws). length input_names - i)") auto

declare load_dims_loop.simps [simp del]

text \<open>
  The file loop \<^verbatim>\<open>for (int i = 0; i < input_names.size(); ++i)\<close>, from \<open>i\<close> on.
  \<open>ReadProtoFromFile\<close> gives the decoded content of a file, \<open>None\<close> when it returns
  false (the \<^verbatim>\<open>CAFFE_ENFORCE\<close> around it has no message of its own); \<open>Deserialize\<close>
  gives the blob a decoded content stands for, or the exception it throws.
\<close>

function load_files_loop ::
  "(string \<Rightarrow> 'p option) \<Rightarrow> ('p \<Rightarrow> Blob result) \<Rightarrow> string list \<Rightarrow> string list
     \<Rightarrow> nat \<Rightarrow> Workspace \<Rightarrow> unit result \<times> Workspace" where
  "load_files_loop ReadProtoFromFile Deserialize input_names input_files i ws =
     (if i < length input_names then
        (case ReadProtoFromFile (input_files ! i) of
           None \<Rightarrow> (Inl (EnforceNotMet ''''), ws)
         | Some blob_proto \<Rightarrow>
             (let ws1 = CreateBlob ws (input_names ! i)
              in case Deserialize blob_proto of
                   Inl e \<Rightarrow> (Inl e, ws1)
                 | Inr b \<Rightarrow>
                     load_files_loop ReadProtoFromFile Deserialize input_names input_files
                       (i + 1) (put_blob (input_names ! i) b ws1)))
      else (Inr (), ws))"
  by pat_completeness auto
termination
  by (relation "measure (\<lambda>(r, d, input_names, fs, i, ws). length input_names - i)") auto

declare load_files_loop.simps [simp del]

text \<open>
  \<^verbatim>\<open>loadInput\<close>. The two \<^verbatim>\<open>CAFFE_ENFORCE_GE(..., 0, ...)\<close> at the head of the second
  branch compare an unsigned size with 0 and never fail; they have no branch here.
\<close>

definition loadInput ::
  "bool \<Rightarrow> (string \<Rightarrow> int option) \<Rightarrow> (string \<Rightarrow> 'p option) \<Rightarrow> ('p \<Rightarrow> Blob result)
     \<Rightarrow> Workspace \<Rightarrow> bool \<Rightarrow> string \<Rightarrow> string \<Rightarrow> string \<Rightarrow> string
     \<Rightarrow> unit result \<times> Workspace" where
  "loadInput cuda_compiled stoi ReadProtoFromFile Deserialize
       workspace run_on_gpu input input_file input_dims input_type =
     (if length input \<noteq> 0 then
        (let input_names = split CHR '','' input in
         if length input_file \<noteq> 0 then
           (let input_files = split CHR '','' input_file in
            if length input_names \<noteq> length input_files then
              (Inl (EnforceNotMet ''Input name and file should have the same number.''),
               workspace)
            else load_files_loop ReadProtoFromFile Deserialize input_names input_files 0 workspace)
         else if length input_dims \<noteq> 0 \<or> length input_type \<noteq> 0 then
           (let input_dims_list = split CHR '';'' input_dims in
            if length input_names \<noteq> length input_dims_list then
              (Inl (EnforceNotMet ''Input name and dims should have the same number of items.''),
               workspace)
            else
              (let input_type_list = split CHR '';'' input_type in
               if length input_names \<noteq> length input_type_list then
                 (Inl (EnforceNotMet ''Input name and type should have the same number of items.''),
                  workspace)
               else load_dims_loop cuda_compiled stoi run_on_gpu
                      input_names input_dims_list input_type_list 0 workspace))
         else
           (Inl (EnforceNotMet
              ''You requested input tensors, but neither input_file nor input_dims is set.''),
            workspace))
      else (Inr (), workspace))"

subsection \<open>writeOutput\<close>

text \<open>
  What \<^verbatim>\<open>writeOutput\<close> sends out is kept as a list of events, oldest first:
  \<open>WriteStringToFile serialized output_filename\<close> for the call of that name (its boolean
  result is dropped by the source), and \<open>WriteTextOutput on_gpu tensor output_prefix name\<close>
  for a call of the template \<^verbatim>\<open>writeTextOutput\<close>. \<open>Serialize\<close>, the external encoder
  \<^verbatim>\<open>Blob::Serialize\<close>, is a parameter of the functions below.
\<close>

text \<open>
  Modelled from the spec: \<^verbatim>\<open>writeTextOutput\<close> (\<^verbatim>\<open>binaries/benchmark_helper.h\<close>, not
  under src/) renders the tensor as a text report keyed by the blob name; here it is
  the event \<open>WriteTextOutput\<close> alone.
\<close>

datatype OutputEvent =
    WriteStringToFile string string
  | WriteTextOutput bool Tensor string string

text \<open>
  The loop \<^verbatim>\<open>for (const string& name : output_names)\<close>. The test
  \<^verbatim>\<open>workspace->HasBlob(name)\<close> and the later \<^verbatim>\<open>workspace->GetBlob(name)\<close> are one
  \<open>case\<close> on \<open>GetBlob\<close>.
\<close>

fun writeOutput_loop ::
  "bool \<Rightarrow> (Blob \<Rightarrow> string \<Rightarrow> string) \<Rightarrow> bool \<Rightarrow> string \<Rightarrow> bool \<Rightarrow> string list
     \<Rightarrow> Workspace \<times> OutputEvent list \<Rightarrow> unit result \<times> (Workspace \<times> OutputEvent list)" where
  "writeOutput_loop cuda_compiled Serialize run_on_gpu output_prefix text_output [] st = (Inr (), st)"
| "writeOutput_loop cuda_compiled Serialize run_on_gpu output_prefix text_output
       (output_name # output_names) (ws, out) =
     (case GetBlob ws output_name of
        None \<Rightarrow>
          (Inl (EnforceNotMet (''You requested a non-existing blob: '' @ output_name)), (ws, out))
      | Some blob \<Rightarrow>
          if text_output then
            (if run_on_gpu then
               (if cuda_compiled then
                  (let tensor = GetMutable_TensorCUDA blob
                   in writeOutput_loop cuda_compiled Serialize run_on_gpu output_prefix text_output
                        output_names
                        (put_blob output_name (TensorCUDA tensor) ws,
                         out @ [WriteTextOutput True tensor output_prefix output_name]))
                else (Inl (EnforceNotMet ''Not support GPU.''), (ws, out)))
             else
               (let tensor = GetMutable_TensorCPU blob
                in writeOutput_loop cuda_compiled Serialize run_on_gpu output_prefix text_output
                     output_names
                     (put_blob output_name (TensorCPU tensor) ws,
                      out @ [WriteTextOutput False tensor output_prefix output_name])))
          else
            (let serialized = Serialize blob output_name;
                 output_filename = output_prefix @ output_name
             in writeOutput_loop cuda_compiled Serialize run_on_gpu output_prefix text_output
                  output_names (ws, out @ [WriteStringToFile serialized output_filename])))"

definition writeOutput ::
  "bool \<Rightarrow> (Blob \<Rightarrow> string \<Rightarrow> string) \<Rightarrow> Workspace \<times> OutputEvent list
     \<Rightarrow> bool \<Rightarrow> string \<Rightarrow> string \<Rightarrow> bool
     \<Rightarrow> unit result \<times> (Workspace \<times> OutputEvent list)" where
  "writeOutput cuda_compiled Serialize st run_on_gpu output output_folder text_output =
     (let output_prefix = (if length output_folder \<noteq> 0 then output_folder @ ''/'' else '''')
      in if length output \<noteq> 0 then
           (let output_names = split CHR '','' output;
                output_names = (if output = ''*'' then Blobs (fst st) else output_names)
            in writeOutput_loop cuda_compiled Serialize run_on_gpu output_prefix text_output
                 output_names st)
         else (Inr (), st))"

subsection \<open>Observations used in the statements\<close>

text \<open>
  \<open>requested_blob\<close> follows the spec's words for shape/type mode: the blob asked for by
  one dimension group and one type name holds a tensor of the selected residency whose
  shape is the parsed group and whose element type is the named one; there is none when
  the group does not parse or the type is neither \<open>uint8_t\<close> nor \<open>float\<close>.
\<close>

definition requested_blob :: "(string \<Rightarrow> int option) \<Rightarrow> bool \<Rightarrow> string \<Rightarrow> string \<Rightarrow> Blob option" where
  "requested_blob stoi run_on_gpu dims_str type_str =
     (case parse_dims stoi (split CHR '','' dims_str) of
        None \<Rightarrow> None
      | Some ds \<Rightarrow>
          (let residency = (if run_on_gpu then TensorCUDA else TensorCPU)
           in if type_str = ''uint8_t'' then Some (residency \<lparr>dims = ds, elem_type = Some UInt8\<rparr>)
              else if type_str = ''float'' then Some (residency \<lparr>dims = ds, elem_type = Some Float\<rparr>)
              else None))"

text \<open>
  \<open>is_output_for output_prefix blob_name ev\<close>: the event \<open>ev\<close> is the output of the blob
  \<open>blob_name\<close>, its binary file \<open>output_prefix @ blob_name\<close> or its text report.
\<close>

definition is_output_for :: "string \<Rightarrow> string \<Rightarrow> OutputEvent \<Rightarrow> bool" where
  "is_output_for output_prefix blob_name ev =
     (case ev of
        WriteStringToFile serialized output_filename \<Rightarrow> output_filename = output_prefix @ blob_name
      | WriteTextOutput on_gpu tensor pre n \<Rightarrow> pre = output_prefix \<and> n = blob_name)"

subsection \<open>Sample inputs\<close>

text \<open>Concrete values at which the theorems below are instantiated.\<close>

definition sample_op :: "string option \<Rightarrow> int \<Rightarrow> unit OperatorDef" where
  "sample_op e d =
     \<lparr>engine = e, device_option = \<lparr>device_type = d, dev_other = ()\<rparr>, op_other = ()\<rparr>"

definition sample_net :: "unit NetDef" where
  "sample_net =
     \<lparr>name = None, op = [sample_op None 0, sample_op (Some ''EIGEN'') 2], net_other = ()\<rparr>"

definition sample_CreateNet :: "unit NetDef \<Rightarrow> nat \<Rightarrow> nat option" where
  "sample_CreateNet n w = Some w"

definition sample_Run :: "SampleRate \<Rightarrow> nat \<Rightarrow> bool \<times> nat" where
  "sample_Run sr w = (True, w + 1)"

definition sample_state :: "(unit, nat) RunState" where
  "sample_state =
     \<lparr>rs_net_def = sample_net, rs_workspace = 0,
      rs_sample_rate = \<lparr>netInitSampleRate = 0, netFollowupSampleRate = 0,
        netFollowupSampleCount = 0, operatorNetSampleRatio = 0, skipIters = 0\<rparr>,
      run_log = []\<rparr>"

text \<open>
  A sample parser for unsigned decimal numerals (\<open>None\<close> for anything else), a sample
  file system with the one file \<open>data.pb\<close>, and sample encoders.
\<close>

definition sample_stoi :: "string \<Rightarrow> int option" where
  "sample_stoi s =
     (if s \<noteq> [] \<and> list_all (\<lambda>c. c \<in> set ''0123456789'') s
      then Some (int (foldl (\<lambda>a c. 10 * a + (of_char c - 48)) 0 s))
      else None)"

definition sample_ReadProtoFromFile :: "string \<Rightarrow> Blob option" where
  "sample_ReadProtoFromFile file_name =
     (if file_name = ''data.pb'' then Some (TensorCPU \<lparr>dims = [1, 3], elem_type = Some Float\<rparr>)
      else None)"

definition sample_Deserialize :: "Blob \<Rightarrow> Blob result" where
  "sample_Deserialize blob_proto = Inr blob_proto"

definition sample_Serialize :: "Blob \<Rightarrow> string \<Rightarrow> string" where
  "sample_Serialize b blob_name = ''blob:'' @ blob_name"

section \<open>Properties\<close>

subsection \<open>The two rewriting loops as maps\<close>

lemma map_at_step:
  "j < length xs \<Longrightarrow>
   take (Suc j) (xs[j := f (xs ! j)]) @ map f (drop (Suc j) (xs[j := f (xs ! j)]))
     = take j xs @ map f (drop j xs)"
  by (simp add: take_Suc_conv_app_nth Cons_nth_drop_Suc [symmetric])

lemma setDeviceType_loop_map:
  "setDeviceType_loop j net_def run_dev =
     net_def\<lparr>op := take j (op net_def) @ map (set_device_type run_dev) (drop j (op net_def))\<rparr>"
proof (induction j net_def run_dev rule: setDeviceType_loop.induct)
  case (1 j net_def run_dev)
  show ?case
  proof (cases "j < op_size net_def")
    case True
    then have lt: "j < length (op net_def)" by (simp add: op_size_def)
    have "setDeviceType_loop j net_def run_dev =
            setDeviceType_loop (j + 1) (mutable_op net_def j (set_device_type run_dev)) run_dev"
      using True by (subst setDeviceType_loop.simps) simp
    also have "\<dots> = net_def\<lparr>op := take j (op net_def)
                          @ map (set_device_type run_dev) (drop j (op net_def))\<rparr>"
      using "1.IH" [OF True] map_at_step [OF lt, of "set_device_type run_dev"]
      by (simp add: mutable_op_def)
    finally show ?thesis .
  next
    case False
    then show ?thesis
      by (subst setDeviceType_loop.simps) (simp add: op_size_def)
  qed
qed

lemma setOperatorEngine_loop_map:
  "setOperatorEngine_loop i net_def e =
     net_def\<lparr>op := take i (op net_def) @ map (set_engine e) (drop i (op net_def))\<rparr>"
proof (induction i net_def e rule: setOperatorEngine_loop.induct)
  case (1 i net_def e)
  show ?case
  proof (cases "i < op_size net_def")
    case True
    then have lt: "i < length (op net_def)" by (simp add: op_size_def)
    have "setOperatorEngine_loop i net_def e =
            setOperatorEngine_loop (i + 1) (mutable_op net_def i (set_engine e)) e"
      using True by (subst setOperatorEngine_loop.simps) simp
    also have "\<dots> = net_def\<lparr>op := take i (op net_def) @ map (set_engine e) (drop i (op net_def))\<rparr>"
      using "1.IH" [OF True] map_at_step [OF lt, of "set_engine e"]
      by (simp add: mutable_op_def)
    finally show ?thesis .
  next
    case False
    then show ?thesis
      by (subst setOperatorEngine_loop.simps) (simp add: op_size_def)
  qed
qed

lemma setDeviceType_map:
  "setDeviceType net_def run_dev = net_def\<lparr>op := map (set_device_type run_dev) (op net_def)\<rparr>"
  by (simp add: setDeviceType_def setDeviceType_loop_map)

lemma engine_of_backend_NONE:
  "engine_of_backend backend = ''NONE'' \<longleftrightarrow>
     backend \<notin> {''nnpack'', ''eigen'', ''mkl'', ''cuda'', ''default''}"
  by (simp add: engine_of_backend_def)

lemma setOperatorEngine_map:
  "setOperatorEngine net_def backend =
     (if backend = ''builtin'' then (Inr (), net_def)
      else if engine_of_backend backend = ''NONE''
        then (Inl (EnforceNotMet ''Backend is not supported''), net_def)
      else (Inr (), net_def\<lparr>op := map (set_engine (engine_of_backend backend)) (op net_def)\<rparr>))"
  by (simp add: setOperatorEngine_def setOperatorEngine_loop_map Let_def)

subsection \<open>Backend configuration\<close>

text \<open>
  C6. For every graph definition and every device type \<open>run_dev\<close>, \<open>setDeviceType\<close>
  sets the device type of every operator to \<open>run_dev\<close>; it takes neither the backend nor
  the engine, and it keeps the number of operators, each operator's engine, its other
  fields and the other fields of its device option, and the graph's name and other
  fields.
\<close>

theorem setDeviceType_sets_every_device_type:
  "op_size (setDeviceType net_def run_dev) = op_size net_def \<and>
   name (setDeviceType net_def run_dev) = name net_def \<and>
   net_other (setDeviceType net_def run_dev) = net_other net_def \<and>
   (\<forall>j < op_size net_def.
      device_type (device_option (op (setDeviceType net_def run_dev) ! j)) = run_dev \<and>
      dev_other (device_option (op (setDeviceType net_def run_dev) ! j))
        = dev_other (device_option (op net_def ! j)) \<and>
      engine (op (setDeviceType net_def run_dev) ! j) = engine (op net_def ! j) \<and>
      op_other (op (setDeviceType net_def run_dev) ! j) = op_other (op net_def ! j))"
proof -
  have eq: "setDeviceType net_def run_dev
              = net_def\<lparr>op := map (set_device_type run_dev) (op net_def)\<rparr>"
    by (rule setDeviceType_map)
  show ?thesis
    unfolding eq by (simp add: op_size_def set_device_type_def)
qed

theorem setDeviceType_sets_every_device_type_witness:
  "op_size sample_net = 2 \<and>
   map (\<lambda>opd. device_type (device_option opd)) (op sample_net) = [0, 2] \<and>
   device_type (device_option (op (setDeviceType sample_net 1) ! 0)) = 1 \<and>
   device_type (device_option (op (setDeviceType sample_net 1) ! 1)) = 1 \<and>
   engine (op (setDeviceType sample_net 1) ! 1) = Some ''EIGEN''"
proof -
  have n: "op_size sample_net = 2"
    by (simp add: sample_net_def op_size_def)
  have e: "engine (op sample_net ! 1) = Some ''EIGEN''"
    by (simp add: sample_net_def sample_op_def)
  have d: "map (\<lambda>opd. device_type (device_option opd)) (op sample_net) = [0, 2]"
    by (simp add: sample_net_def sample_op_def)
  from setDeviceType_sets_every_device_type [of sample_net 1]
  have all: "\<forall>j < op_size sample_net.
      device_type (device_option (op (setDeviceType sample_net 1) ! j)) = 1 \<and>
      engine (op (setDeviceType sample_net 1) ! j) = engine (op sample_net ! j)"
    by blast
  have "(0::nat) < op_size sample_net" "(1::nat) < op_size sample_net"
    using n by simp_all
  with all e n d show ?thesis by auto
qed

text \<open>
  C4. For every graph definition and backend identifier, \<open>setOperatorEngine\<close> returns
  normally with the graph as it was for \<open>builtin\<close>; returns normally with every
  operator's engine set to \<open>NNPACK\<close>, \<open>EIGEN\<close>, \<open>MKLDNN\<close>, \<open>CUDA\<close> or the empty string
  (and nothing else changed) for \<open>nnpack\<close>, \<open>eigen\<close>, \<open>mkl\<close>, \<open>cuda\<close> or \<open>default\<close>;
  and for any other identifier throws "Backend is not supported" with the graph as it
  was.
\<close>

theorem setOperatorEngine_by_backend:
  "(backend = ''builtin'' \<longrightarrow> setOperatorEngine net_def backend = (Inr (), net_def)) \<and>
   (backend = ''nnpack'' \<longrightarrow> setOperatorEngine net_def backend
      = (Inr (), net_def\<lparr>op := map (set_engine ''NNPACK'') (op net_def)\<rparr>)) \<and>
   (backend = ''eigen'' \<longrightarrow> setOperatorEngine net_def backend
      = (Inr (), net_def\<lparr>op := map (set_engine ''EIGEN'') (op net_def)\<rparr>)) \<and>
   (backend = ''mkl'' \<longrightarrow> setOperatorEngine net_def backend
      = (Inr (), net_def\<lparr>op := map (set_engine ''MKLDNN'') (op net_def)\<rparr>)) \<and>
   (backend = ''cuda'' \<longrightarrow> setOperatorEngine net_def backend
      = (Inr (), net_def\<lparr>op := map (set_engine ''CUDA'') (op net_def)\<rparr>)) \<and>
   (backend = ''default'' \<longrightarrow> setOperatorEngine net_def backend
      = (Inr (), net_def\<lparr>op := map (set_engine '''') (op net_def)\<rparr>)) \<and>
   (backend \<notin> {''builtin'', ''nnpack'', ''eigen'', ''mkl'', ''cuda'', ''default''} \<longrightarrow>
      setOperatorEngine net_def backend
        = (Inl (EnforceNotMet ''Backend is not supported''), net_def))"
proof -
  note m = setOperatorEngine_map [of net_def backend]
  show ?thesis
    unfolding m by (simp add: engine_of_backend_def)
qed

theorem setOperatorEngine_by_backend_witness:
  "setOperatorEngine sample_net ''builtin'' = (Inr (), sample_net) \<and>
   map engine (op (snd (setOperatorEngine sample_net ''nnpack'')))
     = [Some ''NNPACK'', Some ''NNPACK''] \<and>
   map engine (op (snd (setOperatorEngine sample_net ''eigen'')))
     = [Some ''EIGEN'', Some ''EIGEN''] \<and>
   map engine (op (snd (setOperatorEngine sample_net ''mkl'')))
     = [Some ''MKLDNN'', Some ''MKLDNN''] \<and>
   map engine (op (snd (setOperatorEngine sample_net ''cuda'')))
     = [Some ''CUDA'', Some ''CUDA''] \<and>
   map engine (op (snd (setOperatorEngine sample_net ''default''))) = [Some '''', Some ''''] \<and>
   setOperatorEngine sample_net ''opengl''
     = (Inl (EnforceNotMet ''Backend is not supported''), sample_net) \<and>
   map engine (op sample_net) = [None, Some ''EIGEN'']"
proof -
  have "setOperatorEngine sample_net ''builtin'' = (Inr (), sample_net)"
    using setOperatorEngine_by_backend [of "''builtin''" sample_net] by simp
  moreover have "map engine (op (snd (setOperatorEngine sample_net ''nnpack'')))
                   = [Some ''NNPACK'', Some ''NNPACK'']"
    using setOperatorEngine_by_backend [of "''nnpack''" sample_net]
    by (simp add: sample_net_def set_engine_def)
  moreover have "map engine (op (snd (setOperatorEngine sample_net ''eigen'')))
                   = [Some ''EIGEN'', Some ''EIGEN'']"
    using setOperatorEngine_by_backend [of "''eigen''" sample_net]
    by (simp add: sample_net_def set_engine_def)
  moreover have "map engine (op (snd (setOperatorEngine sample_net ''mkl'')))
                   = [Some ''MKLDNN'', Some ''MKLDNN'']"
    using setOperatorEngine_by_backend [of "''mkl''" sample_net]
    by (simp add: sample_net_def set_engine_def)
  moreover have "map engine (op (snd (setOperatorEngine sample_net ''cuda'')))
                   = [Some ''CUDA'', Some ''CUDA'']"
    using setOperatorEngine_by_backend [of "''cuda''" sample_net]
    by (simp add: sample_net_def set_engine_def)
  moreover have "map engine (op (snd (setOperatorEngine sample_net ''default'')))
                   = [Some '''', Some '''']"
    using setOperatorEngine_by_backend [of "''default''" sample_net]
    by (simp add: sample_net_def set_engine_def)
  moreover have "setOperatorEngine sample_net ''opengl''
                   = (Inl (EnforceNotMet ''Backend is not supported''), sample_net)"
    using setOperatorEngine_by_backend [of "''opengl''" sample_net] by simp
  moreover have "map engine (op sample_net) = [None, Some ''EIGEN'']"
    by (simp add: sample_net_def sample_op_def)
  ultimately show ?thesis by blast
qed

text \<open>
  C8. Backend configuration is idempotent. For every graph definition, every device
  type and every recognized backend identifier, the engine rewrite succeeds, and
  applying the two rewrites a second time with the same backend and device type gives
  back exactly the graph obtained the first time. This holds in the order device type,
  then engine, and in the order engine, then device type.
\<close>

theorem backend_configuration_idempotent:
  assumes rec: "backend \<in> {''builtin'', ''nnpack'', ''eigen'', ''mkl'', ''cuda'', ''default''}"
  shows "fst (setOperatorEngine (setDeviceType net_def run_dev) backend) = Inr () \<and>
         (let once = snd (setOperatorEngine (setDeviceType net_def run_dev) backend)
          in setOperatorEngine (setDeviceType once run_dev) backend = (Inr (), once)) \<and>
         fst (setOperatorEngine net_def backend) = Inr () \<and>
         (let once = setDeviceType (snd (setOperatorEngine net_def backend)) run_dev
          in fst (setOperatorEngine once backend) = Inr () \<and>
             setDeviceType (snd (setOperatorEngine once backend)) run_dev = once)"
proof (cases "backend = ''builtin''")
  case True
  have idem: "set_device_type run_dev \<circ> set_device_type run_dev = set_device_type run_dev"
    by (rule ext) (simp add: set_device_type_def)
  from True show ?thesis
    by (simp add: setOperatorEngine_map setDeviceType_map idem)
next
  case False
  with rec have ok: "engine_of_backend backend \<noteq> ''NONE''"
    by (simp add: engine_of_backend_NONE)
  have de: "(set_engine e \<circ> set_device_type run_dev) \<circ> (set_engine e \<circ> set_device_type run_dev)
              = set_engine e \<circ> set_device_type run_dev" for e
    by (rule ext) (simp add: set_engine_def set_device_type_def)
  have ed: "(set_device_type run_dev \<circ> set_engine e) \<circ> (set_device_type run_dev \<circ> set_engine e)
              = set_device_type run_dev \<circ> set_engine e" for e
    by (rule ext) (simp add: set_engine_def set_device_type_def)
  show ?thesis
    using False ok by (simp add: setOperatorEngine_map setDeviceType_map de ed)
qed

theorem backend_configuration_idempotent_witness:
  "''mkl'' \<in> {''builtin'', ''nnpack'', ''eigen'', ''mkl'', ''cuda'', ''default''} \<and>
   fst (setOperatorEngine (setDeviceType sample_net 1) ''mkl'') = Inr () \<and>
   setOperatorEngine
     (setDeviceType (snd (setOperatorEngine (setDeviceType sample_net 1) ''mkl'')) 1) ''mkl''
     = (Inr (), snd (setOperatorEngine (setDeviceType sample_net 1) ''mkl'')) \<and>
   snd (setOperatorEngine (setDeviceType sample_net 1) ''mkl'') \<noteq> sample_net"
proof -
  have r: "''mkl'' \<in> {''builtin'', ''nnpack'', ''eigen'', ''mkl'', ''cuda'', ''default''}"
    by simp
  have ne: "snd (setOperatorEngine (setDeviceType sample_net 1) ''mkl'') \<noteq> sample_net"
    by (simp add: setOperatorEngine_map setDeviceType_map engine_of_backend_def sample_net_def
        sample_op_def set_engine_def set_device_type_def)
  from backend_configuration_idempotent [OF r, of sample_net 1] r ne show ?thesis
    by (simp add: Let_def)
qed

text \<open>
  C5. With backend \<open>cuda\<close> and no usable accelerator, \<open>backendCudaSet\<close> throws, and the
  graph definition is as it was: built without accelerator support it throws
  "NO GPU support" (whatever the host has), built with support on a host without a
  device it throws "NO GPU support on this host machine"; the two errors differ.
\<close>

theorem backendCudaSet_without_accelerator:
  "backendCudaSet False has_cuda_gpu ''cuda'' net_def
     = (Inl (EnforceNotMet ''NO GPU support''), net_def) \<and>
   backendCudaSet True False ''cuda'' net_def
     = (Inl (EnforceNotMet ''NO GPU support on this host machine''), net_def) \<and>
   fst (backendCudaSet False has_cuda_gpu ''cuda'' net_def)
     \<noteq> fst (backendCudaSet True False ''cuda'' net_def)"
proof -
  have not_compiled: "backendCudaSet False has_cuda_gpu ''cuda'' net_def
                        = (Inl (EnforceNotMet ''NO GPU support''), net_def)"
    by (simp add: backendCudaSet_def)
  have no_device: "backendCudaSet True False ''cuda'' net_def
                     = (Inl (EnforceNotMet ''NO GPU support on this host machine''), net_def)"
    by (simp add: backendCudaSet_def)
  show ?thesis
    unfolding not_compiled no_device by simp
qed

subsection \<open>The execution loop\<close>

lemma run_log_initSampleRate: "run_log (initSampleRate a b c d e s) = run_log s"
  by (simp add: initSampleRate_def)

lemma run_log_net_Run:
  "net_Run Run s = (ok, s1) \<Longrightarrow> run_log s1 = run_log s @ [rs_sample_rate s]"
  by (auto simp: net_Run_def split: prod.splits)

lemma net_Run_ok:
  "\<forall>sr w. fst (Run sr w) \<Longrightarrow> net_Run Run s = (ok, s1) \<Longrightarrow> ok"
  by (auto simp: net_Run_def split: prod.splits) (metis fst_conv)

lemma warmup_loop_done:
  "\<not> i < warmup \<Longrightarrow> warmup_loop Run i warmup s = (Inr (), s)"
  by (subst warmup_loop.simps) simp

lemma warmup_loop_step:
  "i < warmup \<Longrightarrow> net_Run Run s = (ok, s1) \<Longrightarrow>
   warmup_loop Run i warmup s =
     (if \<not> ok then (Inl (EnforceNotMet (''Warmup run '' @ int_string i @ '' has failed.'')), s1)
      else warmup_loop Run (i + 1) warmup s1)"
  by (subst warmup_loop.simps) simp

lemma main_loop_done:
  "\<not> i < iter \<Longrightarrow> main_loop Run run_individual warmup i iter s = (Inr (), s)"
  by (subst main_loop.simps) simp

lemma main_loop_step:
  "i < iter \<Longrightarrow> net_Run Run (initSampleRate 1 1 1 0 warmup s) = (ok, s1) \<Longrightarrow>
   net_Run Run (initSampleRate 1 1 1 1 warmup s1) = (ok2, s2) \<Longrightarrow>
   main_loop Run run_individual warmup i iter s =
     (if \<not> ok then (Inl (EnforceNotMet (''Main run '' @ int_string i @ '' has failed.'')), s1)
      else if run_individual then
        (if \<not> ok2 then
           (Inl (EnforceNotMet (''Main run '' @ int_string i @ '' with operator has failed.'')), s2)
         else main_loop Run run_individual warmup (i + 1) iter s2)
      else main_loop Run run_individual warmup (i + 1) iter s1)"
  by (subst main_loop.simps) simp

lemma warmup_loop_count:
  "fst (warmup_loop Run i warmup s) = Inr () \<Longrightarrow>
   length (run_log (snd (warmup_loop Run i warmup s))) = length (run_log s) + nat (warmup - i)"
proof (induction Run i warmup s rule: warmup_loop.induct)
  case (1 Run i warmup s)
  show ?case
  proof (cases "i < warmup")
    case False
    then show ?thesis by (simp add: warmup_loop_done)
  next
    case True
    obtain ok s1 where r: "net_Run Run s = (ok, s1)" by (cases "net_Run Run s")
    note unf = warmup_loop_step [OF True r]
    from "1.prems" unf have ok: ok by (auto split: if_splits)
    with "1.prems" unf have "fst (warmup_loop Run (i + 1) warmup s1) = Inr ()" by simp
    with "1.IH" [OF True r [symmetric]] ok
    have "length (run_log (snd (warmup_loop Run (i + 1) warmup s1)))
            = length (run_log s1) + nat (warmup - (i + 1))" by simp
    moreover have "length (run_log s1) = length (run_log s) + 1"
      using run_log_net_Run [OF r] by simp
    moreover have "nat (warmup - i) = nat (warmup - (i + 1)) + 1"
      using True by simp
    ultimately show ?thesis
      using unf ok by simp
  qed
qed

lemma warmup_loop_ok:
  "\<forall>sr w. fst (Run sr w) \<Longrightarrow> fst (warmup_loop Run i warmup s) = Inr ()"
proof (induction Run i warmup s rule: warmup_loop.induct)
  case (1 Run i warmup s)
  show ?case
  proof (cases "i < warmup")
    case False
    then show ?thesis by (simp add: warmup_loop_done)
  next
    case True
    obtain ok s1 where r: "net_Run Run s = (ok, s1)" by (cases "net_Run Run s")
    have ok: ok using net_Run_ok [OF "1.prems" r] .
    from "1.IH" [OF True r [symmetric]] ok "1.prems"
    have "fst (warmup_loop Run (i + 1) warmup s1) = Inr ()" by simp
    then show ?thesis
      using warmup_loop_step [OF True r] ok by simp
  qed
qed

lemma main_loop_count:
  "fst (main_loop Run run_individual warmup i iter s) = Inr () \<Longrightarrow>
   length (run_log (snd (main_loop Run run_individual warmup i iter s)))
     = length (run_log s) + (if run_individual then 2 * nat (iter - i) else nat (iter - i))"
proof (induction Run run_individual warmup i iter s rule: main_loop.induct)
  case (1 Run run_individual warmup i iter s)
  show ?case
  proof (cases "i < iter")
    case False
    then show ?thesis by (simp add: main_loop_done)
  next
    case True
    obtain ok s1 where r1: "net_Run Run (initSampleRate 1 1 1 0 warmup s) = (ok, s1)"
      by (cases "net_Run Run (initSampleRate 1 1 1 0 warmup s)")
    obtain ok2 s2 where r2: "net_Run Run (initSampleRate 1 1 1 1 warmup s1) = (ok2, s2)"
      by (cases "net_Run Run (initSampleRate 1 1 1 1 warmup s1)")
    note unf = main_loop_step [OF True r1 r2, of run_individual]
    from "1.prems" unf have ok: ok by (auto split: if_splits)
    have l1: "length (run_log s1) = length (run_log s) + 1"
      using run_log_net_Run [OF r1] by (simp add: run_log_initSampleRate)
    have l2: "length (run_log s2) = length (run_log s1) + 1"
      using run_log_net_Run [OF r2] by (simp add: run_log_initSampleRate)
    have n: "nat (iter - i) = nat (iter - (i + 1)) + 1"
      using True by simp
    show ?thesis
    proof (cases run_individual)
      case True
      with "1.prems" unf ok have ok2: ok2 by (auto split: if_splits)
      with "1.prems" unf ok True
      have "fst (main_loop Run run_individual warmup (i + 1) iter s2) = Inr ()" by simp
      with "1.IH"(1) [OF \<open>i < iter\<close> r1 [symmetric] _ True r2 [symmetric]] ok ok2
      have "length (run_log (snd (main_loop Run run_individual warmup (i + 1) iter s2)))
              = length (run_log s2) + 2 * nat (iter - (i + 1))"
        using True by simp
      then show ?thesis
        using unf ok ok2 True l1 l2 n by simp
    next
      case False
      with "1.prems" unf ok
      have "fst (main_loop Run run_individual warmup (i + 1) iter s1) = Inr ()" by simp
      with "1.IH"(2) [OF \<open>i < iter\<close> r1 [symmetric] _ False] ok
      have "length (run_log (snd (main_loop Run run_individual warmup (i + 1) iter s1)))
              = length (run_log s1) + nat (iter - (i + 1))"
        using False by simp
      then show ?thesis
        using unf ok False l1 n by simp
    qed
  qed
qed

lemma main_loop_ok:
  "\<forall>sr w. fst (Run sr w) \<Longrightarrow> fst (main_loop Run run_individual warmup i iter s) = Inr ()"
proof (induction Run run_individual warmup i iter s rule: main_loop.induct)
  case (1 Run run_individual warmup i iter s)
  show ?case
  proof (cases "i < iter")
    case False
    then show ?thesis by (simp add: main_loop_done)
  next
    case True
    obtain ok s1 where r1: "net_Run Run (initSampleRate 1 1 1 0 warmup s) = (ok, s1)"
      by (cases "net_Run Run (initSampleRate 1 1 1 0 warmup s)")
    obtain ok2 s2 where r2: "net_Run Run (initSampleRate 1 1 1 1 warmup s1) = (ok2, s2)"
      by (cases "net_Run Run (initSampleRate 1 1 1 1 warmup s1)")
    note unf = main_loop_step [OF True r1 r2, of run_individual]
    have ok: ok using net_Run_ok [OF "1.prems" r1] .
    have ok2: ok2 using net_Run_ok [OF "1.prems" r2] .
    show ?thesis
    proof (cases run_individual)
      case True
      from "1.IH"(1) [OF \<open>i < iter\<close> r1 [symmetric] _ True r2 [symmetric]] ok ok2 "1.prems"
      have "fst (main_loop Run run_individual warmup (i + 1) iter s2) = Inr ()" by simp
      then show ?thesis using unf ok ok2 True by simp
    next
      case False
      from "1.IH"(2) [OF \<open>i < iter\<close> r1 [symmetric] _ False] ok "1.prems"
      have "fst (main_loop Run run_individual warmup (i + 1) iter s1) = Inr ()" by simp
      then show ?thesis using unf ok False by simp
    qed
  qed
qed

lemma run_log_set_default_name: "run_log (set_default_name s) = run_log s"
  by (simp add: set_default_name_def)

lemma runNetwork_no_net:
  "CreateNet (rs_net_def (set_default_name s)) (rs_workspace (set_default_name s)) = None \<Longrightarrow>
   runNetwork CreateNet Run s run_individual warmup iter
     = (Inl (CheckFailed ''net''), set_default_name s)"
  by (simp add: runNetwork_def Let_def)

lemma runNetwork_net:
  "CreateNet (rs_net_def (set_default_name s)) (rs_workspace (set_default_name s)) = Some w \<Longrightarrow>
   warmup_loop Run 0 warmup
     (initSampleRate 1 1 1 (if run_individual then 1 else 0) warmup
        ((set_default_name s)\<lparr>rs_workspace := w\<rparr>))
     = (r, s2) \<Longrightarrow>
   runNetwork CreateNet Run s run_individual warmup iter =
     (case r of
        Inl e \<Rightarrow> (Inl e, s2)
      | Inr u \<Rightarrow>
          if \<not> iter \<ge> 0 then
            (Inl (EnforceNotMet (''Number of main runs should be non negative, provided ''
                   @ int_string iter @ ''.'')), s2)
          else main_loop Run run_individual warmup 0 iter s2)"
  by (simp add: runNetwork_def Let_def split: sum.split)

lemma runNetwork_count:
  assumes fin: "fst (runNetwork CreateNet Run s run_individual warmup iter) = Inr ()"
  shows "length (run_log (snd (runNetwork CreateNet Run s run_individual warmup iter)))
           = length (run_log s) + nat warmup + (if run_individual then 2 * nat iter else nat iter)"
proof (cases "CreateNet (rs_net_def (set_default_name s)) (rs_workspace (set_default_name s))")
  case None
  from runNetwork_no_net [where CreateNet = CreateNet and s = s, OF None] fin
  show ?thesis by simp
next
  case (Some x)
  let ?s0 = "initSampleRate 1 1 1 (if run_individual then 1 else 0) warmup
               ((set_default_name s)\<lparr>rs_workspace := x\<rparr>)"
  obtain r s2 where wl: "warmup_loop Run 0 warmup ?s0 = (r, s2)"
    by (cases "warmup_loop Run 0 warmup ?s0")
  note unf = runNetwork_net [where CreateNet = CreateNet and s = s and iter = iter, OF Some wl]
  from fin unf have r: "r = Inr ()" by (cases r) auto
  from fin unf r have i: "0 \<le> iter" by (auto split: if_splits)
  from unf r i
  have eq: "runNetwork CreateNet Run s run_individual warmup iter
              = main_loop Run run_individual warmup 0 iter s2"
    by simp
  have c0: "length (run_log ?s0) = length (run_log s)"
    by (simp add: run_log_initSampleRate run_log_set_default_name)
  have c1: "length (run_log s2) = length (run_log ?s0) + nat (warmup - 0)"
    using warmup_loop_count [of Run 0 warmup ?s0] wl r by simp
  have c2: "length (run_log (snd (main_loop Run run_individual warmup 0 iter s2)))
              = length (run_log s2)
                  + (if run_individual then 2 * nat (iter - 0) else nat (iter - 0))"
    using main_loop_count [of Run run_individual warmup 0 iter s2] fin eq by simp
  show ?thesis
    unfolding eq using c0 c1 c2 by simp
qed

lemma runNetwork_after_warmup:
  assumes env: "(\<forall>n x. CreateNet n x \<noteq> None) \<and> (\<forall>sr x. fst (Run sr x))"
  shows "\<exists>s2. length (run_log s2) = length (run_log s) + nat warmup \<and>
           runNetwork CreateNet Run s run_individual warmup iter =
             (if \<not> iter \<ge> 0 then
                (Inl (EnforceNotMet (''Number of main runs should be non negative, provided ''
                       @ int_string iter @ ''.'')), s2)
              else main_loop Run run_individual warmup 0 iter s2)"
proof -
  from env
  have "CreateNet (rs_net_def (set_default_name s)) (rs_workspace (set_default_name s)) \<noteq> None"
    by blast
  then obtain x
    where Some: "CreateNet (rs_net_def (set_default_name s)) (rs_workspace (set_default_name s)) = Some x"
    by blast
  let ?s0 = "initSampleRate 1 1 1 (if run_individual then 1 else 0) warmup
               ((set_default_name s)\<lparr>rs_workspace := x\<rparr>)"
  obtain r s2 where wl: "warmup_loop Run 0 warmup ?s0 = (r, s2)"
    by (cases "warmup_loop Run 0 warmup ?s0")
  have r: "r = Inr ()"
    using warmup_loop_ok [of Run 0 warmup ?s0] env wl by simp
  have c0: "length (run_log ?s0) = length (run_log s)"
    by (simp add: run_log_initSampleRate run_log_set_default_name)
  have c1: "length (run_log s2) = length (run_log ?s0) + nat (warmup - 0)"
    using warmup_loop_count [of Run 0 warmup ?s0] wl r by simp
  from runNetwork_net [where CreateNet = CreateNet and s = s and iter = iter, OF Some wl] r c0 c1
  show ?thesis by auto
qed

lemma runNetwork_ok:
  assumes env: "(\<forall>n x. CreateNet n x \<noteq> None) \<and> (\<forall>sr x. fst (Run sr x))"
    and i: "0 \<le> iter"
  shows "fst (runNetwork CreateNet Run s run_individual warmup iter) = Inr ()"
proof -
  from runNetwork_after_warmup [OF env, of s warmup run_individual iter] i
  obtain s2 where "runNetwork CreateNet Run s run_individual warmup iter
                     = main_loop Run run_individual warmup 0 iter s2"
    by auto
  then show ?thesis
    using main_loop_ok [of Run run_individual warmup 0 iter s2] env by simp
qed

text \<open>
  C1. For every warmup count \<open>0 \<le> warmup\<close> and measured count \<open>0 \<le> iter\<close>: whenever
  \<open>runNetwork\<close> returns normally, it has invoked \<^verbatim>\<open>net->Run()\<close> exactly
  \<open>warmup + iter\<close> times with \<open>run_individual = false\<close> and exactly \<open>warmup + 2 * iter\<close>
  times with \<open>run_individual = true\<close>; and it does return normally when the net can be
  created and no run fails (a failed run is fatal and ends the loop at once).
\<close>

theorem runNetwork_run_count:
  assumes w: "0 \<le> warmup" and i: "0 \<le> iter"
  shows "(fst (runNetwork CreateNet Run s run_individual warmup iter) = Inr () \<longrightarrow>
            length (run_log (snd (runNetwork CreateNet Run s run_individual warmup iter)))
              = length (run_log s) + nat warmup
                  + (if run_individual then 2 * nat iter else nat iter)) \<and>
         ((\<forall>n x. CreateNet n x \<noteq> None) \<and> (\<forall>sr x. fst (Run sr x)) \<longrightarrow>
            fst (runNetwork CreateNet Run s run_individual warmup iter) = Inr ())"
proof (intro conjI impI)
  assume "fst (runNetwork CreateNet Run s run_individual warmup iter) = Inr ()"
  then show "length (run_log (snd (runNetwork CreateNet Run s run_individual warmup iter)))
          = length (run_log s) + nat warmup + (if run_individual then 2 * nat iter else nat iter)"
    by (rule runNetwork_count)
next
  assume "(\<forall>n x. CreateNet n x \<noteq> None) \<and> (\<forall>sr x. fst (Run sr x))"
  then show "fst (runNetwork CreateNet Run s run_individual warmup iter) = Inr ()"
    using i by (rule runNetwork_ok)
qed

theorem runNetwork_run_count_witness:
  "(0::int) \<le> 2 \<and> (0::int) \<le> 3 \<and>
   fst (runNetwork sample_CreateNet sample_Run sample_state False 2 3) = Inr () \<and>
   length (run_log (snd (runNetwork sample_CreateNet sample_Run sample_state False 2 3))) = 5 \<and>
   fst (runNetwork sample_CreateNet sample_Run sample_state True 2 3) = Inr () \<and>
   length (run_log (snd (runNetwork sample_CreateNet sample_Run sample_state True 2 3))) = 8"
proof -
  have env: "(\<forall>n x. sample_CreateNet n x \<noteq> None) \<and> (\<forall>sr x. fst (sample_Run sr x))"
    by (simp add: sample_CreateNet_def sample_Run_def)
  have l: "run_log sample_state = []"
    by (simp add: sample_state_def)
  have w: "(0::int) \<le> 2" and i: "(0::int) \<le> 3" by simp_all
  from runNetwork_run_count [OF w i, of sample_CreateNet sample_Run sample_state False]
       runNetwork_run_count [OF w i, of sample_CreateNet sample_Run sample_state True]
       env l
  show ?thesis by simp
qed

text \<open>
  C10. A negative warmup count is not rejected. With \<open>warmup < 0\<close> the warmup loop
  makes no run and returns normally, and the whole of \<open>runNetwork\<close> returns normally
  after the measured runs alone when \<open>0 \<le> iter\<close>. The check \<open>0 \<le> iter\<close> is made after
  the warmup loop: with \<open>iter < 0\<close> the function throws "Number of main runs should be
  non negative" once the \<open>warmup\<close> warmup runs have been made (none for a negative
  \<open>warmup\<close>). Both statements are for an engine that creates the net and whose runs
  succeed.
\<close>

theorem runNetwork_negative_counts:
  "(warmup < 0 \<longrightarrow> warmup_loop Run 0 warmup s = (Inr (), s)) \<and>
   (warmup < 0 \<and> 0 \<le> iter \<and> (\<forall>n x. CreateNet n x \<noteq> None) \<and> (\<forall>sr x. fst (Run sr x)) \<longrightarrow>
      fst (runNetwork CreateNet Run s run_individual warmup iter) = Inr () \<and>
      length (run_log (snd (runNetwork CreateNet Run s run_individual warmup iter)))
        = length (run_log s) + (if run_individual then 2 * nat iter else nat iter)) \<and>
   (iter < 0 \<and> (\<forall>n x. CreateNet n x \<noteq> None) \<and> (\<forall>sr x. fst (Run sr x)) \<longrightarrow>
      fst (runNetwork CreateNet Run s run_individual warmup iter)
        = Inl (EnforceNotMet (''Number of main runs should be non negative, provided ''
                 @ int_string iter @ ''.'')) \<and>
      length (run_log (snd (runNetwork CreateNet Run s run_individual warmup iter)))
        = length (run_log s) + nat warmup)"
proof (intro conjI impI)
  assume "warmup < 0"
  then show "warmup_loop Run 0 warmup s = (Inr (), s)"
    by (simp add: warmup_loop_done)
next
  assume a: "warmup < 0 \<and> 0 \<le> iter \<and> (\<forall>n x. CreateNet n x \<noteq> None) \<and> (\<forall>sr x. fst (Run sr x))"
  then have env: "(\<forall>n x. CreateNet n x \<noteq> None) \<and> (\<forall>sr x. fst (Run sr x))" by blast
  from a have i: "0 \<le> iter" by blast
  show ok: "fst (runNetwork CreateNet Run s run_individual warmup iter) = Inr ()"
    using env i by (rule runNetwork_ok)
  show "length (run_log (snd (runNetwork CreateNet Run s run_individual warmup iter)))
          = length (run_log s) + (if run_individual then 2 * nat iter else nat iter)"
    using runNetwork_count [OF ok] a by simp
next
  assume a: "iter < 0 \<and> (\<forall>n x. CreateNet n x \<noteq> None) \<and> (\<forall>sr x. fst (Run sr x))"
  then have env: "(\<forall>n x. CreateNet n x \<noteq> None) \<and> (\<forall>sr x. fst (Run sr x))" by blast
  from runNetwork_after_warmup [OF env, of s warmup run_individual iter] a
  obtain s2 where l: "length (run_log s2) = length (run_log s) + nat warmup"
    and r: "runNetwork CreateNet Run s run_individual warmup iter
              = (Inl (EnforceNotMet (''Number of main runs should be non negative, provided ''
                       @ int_string iter @ ''.'')), s2)"
    by auto
  show "fst (runNetwork CreateNet Run s run_individual warmup iter)
          = Inl (EnforceNotMet (''Number of main runs should be non negative, provided ''
                   @ int_string iter @ ''.''))"
    using r by simp
  show "length (run_log (snd (runNetwork CreateNet Run s run_individual warmup iter)))
          = length (run_log s) + nat warmup"
    using r l by simp
qed

theorem runNetwork_negative_counts_witness:
  "warmup_loop sample_Run 0 (- 1) sample_state = (Inr (), sample_state) \<and>
   fst (runNetwork sample_CreateNet sample_Run sample_state True (- 1) 2) = Inr () \<and>
   length (run_log (snd (runNetwork sample_CreateNet sample_Run sample_state True (- 1) 2))) = 4 \<and>
   fst (runNetwork sample_CreateNet sample_Run sample_state True 2 (- 1))
     = Inl (EnforceNotMet ''Number of main runs should be non negative, provided -1.'') \<and>
   length (run_log (snd (runNetwork sample_CreateNet sample_Run sample_state True 2 (- 1)))) = 2"
proof -
  have env: "(\<forall>n x. sample_CreateNet n x \<noteq> None) \<and> (\<forall>sr x. fst (sample_Run sr x))"
    by (simp add: sample_CreateNet_def sample_Run_def)
  have l: "run_log sample_state = []"
    by (simp add: sample_state_def)
  have p: "int_string (- 1) = ''-1''"
    by (simp add: int_string_def nat_digits.simps digit_char_def)
  from runNetwork_negative_counts [of "- 1" sample_Run sample_state 2 sample_CreateNet True]
       runNetwork_negative_counts [of 2 sample_Run sample_state "- 1" sample_CreateNet True]
       env l p
  show ?thesis by simp
qed

subsection \<open>Input materialization\<close>

lemma split_from_Nil_iff: "split_from separator item s = [] \<longleftrightarrow> item = [] \<and> s = []"
  by (induction s arbitrary: item) auto

lemma split_eq_Nil_iff: "split separator s = [] \<longleftrightarrow> s = []"
  by (simp add: split_def split_from_Nil_iff)

lemma load_files_loop_done:
  "\<not> i < length input_names \<Longrightarrow>
   load_files_loop ReadProtoFromFile Deserialize input_names input_files i ws = (Inr (), ws)"
  by (subst load_files_loop.simps) simp

lemma load_files_loop_step:
  "i < length input_names \<Longrightarrow>
   load_files_loop ReadProtoFromFile Deserialize input_names input_files i ws =
     (case ReadProtoFromFile (input_files ! i) of
        None \<Rightarrow> (Inl (EnforceNotMet ''''), ws)
      | Some blob_proto \<Rightarrow>
          (case Deserialize blob_proto of
             Inl e \<Rightarrow> (Inl e, CreateBlob ws (input_names ! i))
           | Inr b \<Rightarrow>
               load_files_loop ReadProtoFromFile Deserialize input_names input_files
                 (i + 1) (put_blob (input_names ! i) b (CreateBlob ws (input_names ! i)))))"
  by (subst load_files_loop.simps) (simp add: Let_def split: option.split)

text \<open>
  C7. When the list of input names is not empty and the file list, the list of
  dimension groups and the type list are all empty, \<open>loadInput\<close> throws the error
  \<^verbatim>\<open>You requested input tensors, but neither input_file nor input_dims is set.\<close> and the workspace is
  as it was.
\<close>

theorem loadInput_no_source:
  assumes names: "split CHR '','' input \<noteq> []"
    and files: "split CHR '','' input_file = []"
    and dims: "split CHR '';'' input_dims = []"
    and types: "split CHR '';'' input_type = []"
  shows "loadInput cuda_compiled stoi ReadProtoFromFile Deserialize
           workspace run_on_gpu input input_file input_dims input_type
         = (Inl (EnforceNotMet
              ''You requested input tensors, but neither input_file nor input_dims is set.''),
            workspace)"
proof -
  from names have "input \<noteq> []" by (simp add: split_eq_Nil_iff)
  moreover from files have "input_file = []" by (simp add: split_eq_Nil_iff)
  moreover from dims have "input_dims = []" by (simp add: split_eq_Nil_iff)
  moreover from types have "input_type = []" by (simp add: split_eq_Nil_iff)
  ultimately show ?thesis
    by (simp add: loadInput_def)
qed

theorem loadInput_no_source_witness:
  "split CHR '','' ''data,label'' = [''data'', ''label''] \<and>
   split CHR '','' '''' = [] \<and> split CHR '';'' '''' = [] \<and>
   loadInput False sample_stoi sample_ReadProtoFromFile sample_Deserialize
       [(''w'', EmptyBlob)] False ''data,label'' '''' '''' ''''
     = (Inl (EnforceNotMet
          ''You requested input tensors, but neither input_file nor input_dims is set.''),
        [(''w'', EmptyBlob)])"
proof -
  have n: "split CHR '','' ''data,label'' = [''data'', ''label'']"
    by (simp add: split_def)
  have e: "split CHR '','' '''' = []" "split CHR '';'' '''' = []"
    by (simp_all add: split_def)
  have ne: "split CHR '','' ''data,label'' \<noteq> []"
    using n by simp
  from loadInput_no_source [OF ne e(1) e(2) e(2)] n e show ?thesis
    by simp
qed

text \<open>
  C9. File mode takes precedence. When the list of input names and the file list are
  both not empty, \<open>loadInput\<close> is the file branch alone: the count check of names
  against files, then the file loop, which only reads, creates and deserializes. The
  result is the same for every dimension string, type string, parser, residency flag
  and build: the dimension groups and types are neither counted nor used.
\<close>

theorem loadInput_file_mode_precedence:
  assumes names: "split CHR '','' input \<noteq> []"
    and files: "split CHR '','' input_file \<noteq> []"
  shows "loadInput cuda_compiled stoi ReadProtoFromFile Deserialize
           workspace run_on_gpu input input_file input_dims input_type
         = (if length (split CHR '','' input) \<noteq> length (split CHR '','' input_file)
            then (Inl (EnforceNotMet ''Input name and file should have the same number.''),
                  workspace)
            else load_files_loop ReadProtoFromFile Deserialize
                   (split CHR '','' input) (split CHR '','' input_file) 0 workspace) \<and>
         (\<forall>cuda_compiled' stoi' run_on_gpu' input_dims' input_type'.
            loadInput cuda_compiled' stoi' ReadProtoFromFile Deserialize
              workspace run_on_gpu' input input_file input_dims' input_type'
            = loadInput cuda_compiled stoi ReadProtoFromFile Deserialize
                workspace run_on_gpu input input_file input_dims input_type)"
proof -
  from names have i: "input \<noteq> []" by (simp add: split_eq_Nil_iff)
  from files have f: "input_file \<noteq> []" by (simp add: split_eq_Nil_iff)
  have eq: "loadInput c p ReadProtoFromFile Deserialize workspace g input input_file d t
         = (if length (split CHR '','' input) \<noteq> length (split CHR '','' input_file)
            then (Inl (EnforceNotMet ''Input name and file should have the same number.''),
                  workspace)
            else load_files_loop ReadProtoFromFile Deserialize
                   (split CHR '','' input) (split CHR '','' input_file) 0 workspace)"
    for c p g d t
    using i f by (simp add: loadInput_def Let_def)
  show ?thesis
    by (simp only: eq) simp
qed

theorem loadInput_file_mode_precedence_witness:
  "split CHR '','' ''data'' = [''data''] \<and> split CHR '','' ''data.pb'' = [''data.pb''] \<and>
   split CHR '';'' ''1,2;3,4;5'' = [''1,2'', ''3,4'', ''5''] \<and>
   loadInput False sample_stoi sample_ReadProtoFromFile sample_Deserialize
       [] False ''data'' ''data.pb'' ''1,2;3,4;5'' ''double''
     = (Inr (), [(''data'', TensorCPU \<lparr>dims = [1, 3], elem_type = Some Float\<rparr>)])"
proof -
  have n: "split CHR '','' ''data'' = [''data'']"
    and f: "split CHR '','' ''data.pb'' = [''data.pb'']"
    and d: "split CHR '';'' ''1,2;3,4;5'' = [''1,2'', ''3,4'', ''5'']"
    by (simp_all add: split_def)
  have n1: "split CHR '','' ''data'' \<noteq> []" and f1: "split CHR '','' ''data.pb'' \<noteq> []"
    using n f by simp_all
  have run: "load_files_loop sample_ReadProtoFromFile sample_Deserialize [''data''] [''data.pb''] 0 []
               = (Inr (), [(''data'', TensorCPU \<lparr>dims = [1, 3], elem_type = Some Float\<rparr>)])"
    by (simp add: load_files_loop_step load_files_loop_done sample_ReadProtoFromFile_def
        sample_Deserialize_def CreateBlob_def HasBlob_def GetBlob_def put_blob_def)
  from loadInput_file_mode_precedence [OF n1 f1, of False sample_stoi sample_ReadProtoFromFile
      sample_Deserialize "[]" False "''1,2;3,4;5''" "''double''"] n f d run
  show ?thesis by simp
qed

subsection \<open>Output capture\<close>

lemma GetBlob_put_blob: "GetBlob (put_blob k b ws) = (GetBlob ws)(k \<mapsto> b)"
  by (rule ext) (simp add: GetBlob_def put_blob_def update_conv')

lemma HasBlob_put_blob: "HasBlob (put_blob k b ws) m \<longleftrightarrow> m = k \<or> HasBlob ws m"
  by (simp add: HasBlob_def GetBlob_put_blob)

lemma writeOutput_loop_missing:
  assumes "\<forall>m \<in> set pre. HasBlob ws m"
    and "\<not> HasBlob ws missing"
    and "pre = [] \<or> \<not> text_output \<or> \<not> run_on_gpu \<or> cuda_compiled"
  shows "\<exists>ws' evs.
           writeOutput_loop cuda_compiled Serialize run_on_gpu output_prefix text_output
             (pre @ missing # post) (ws, out)
           = (Inl (EnforceNotMet (''You requested a non-existing blob: '' @ missing)),
              (ws', out @ evs)) \<and>
           list_all2 (is_output_for output_prefix) pre evs"
  using assms
proof (induction pre arbitrary: ws out)
  case Nil
  then show ?case
    by (simp add: HasBlob_def)
next
  case (Cons m pre)
  from Cons.prems(1) obtain blob where b: "GetBlob ws m = Some blob"
    by (auto simp: HasBlob_def)
  from Cons.prems(3) have cap: "\<not> text_output \<or> \<not> run_on_gpu \<or> cuda_compiled"
    by simp
  then have cap': "pre = [] \<or> \<not> text_output \<or> \<not> run_on_gpu \<or> cuda_compiled"
    by blast
  from Cons.prems(1,2) b have ne: "missing \<noteq> m"
    by (auto simp: HasBlob_def)
  have keep: "\<forall>k \<in> set pre. HasBlob (put_blob m b' ws) k" "\<not> HasBlob (put_blob m b' ws) missing" for b'
    using Cons.prems(1,2) ne by (simp_all add: HasBlob_put_blob)
  show ?case
  proof (cases text_output)
    case False
    from Cons.IH [OF _ Cons.prems(2) cap',
        of "out @ [WriteStringToFile (Serialize blob m) (output_prefix @ m)]"] Cons.prems(1)
    obtain ws' evs where
      r: "writeOutput_loop cuda_compiled Serialize run_on_gpu output_prefix text_output
            (pre @ missing # post)
            (ws, out @ [WriteStringToFile (Serialize blob m) (output_prefix @ m)])
          = (Inl (EnforceNotMet (''You requested a non-existing blob: '' @ missing)),
             (ws', (out @ [WriteStringToFile (Serialize blob m) (output_prefix @ m)]) @ evs))"
      and l: "list_all2 (is_output_for output_prefix) pre evs"
      by auto
    have "list_all2 (is_output_for output_prefix) (m # pre)
            (WriteStringToFile (Serialize blob m) (output_prefix @ m) # evs)"
      using l by (simp add: is_output_for_def)
    with r b False show ?thesis
      by (intro exI [of _ ws'] exI [of _ "WriteStringToFile (Serialize blob m) (output_prefix @ m) # evs"])
         (simp add: Let_def)
  next
    case True
    note tmode = True
    show ?thesis
    proof (cases run_on_gpu)
      case False
      let ?t = "GetMutable_TensorCPU blob"
      let ?e = "WriteTextOutput False ?t output_prefix m"
      from Cons.IH [OF keep(1) keep(2) cap', of "TensorCPU ?t" "out @ [?e]"]
      obtain ws' evs where
        r: "writeOutput_loop cuda_compiled Serialize run_on_gpu output_prefix text_output
              (pre @ missing # post) (put_blob m (TensorCPU ?t) ws, out @ [?e])
            = (Inl (EnforceNotMet (''You requested a non-existing blob: '' @ missing)),
               (ws', (out @ [?e]) @ evs))"
        and l: "list_all2 (is_output_for output_prefix) pre evs"
        by auto
      have "list_all2 (is_output_for output_prefix) (m # pre) (?e # evs)"
        using l by (simp add: is_output_for_def)
      with r b tmode False show ?thesis
        by (intro exI [of _ ws'] exI [of _ "?e # evs"]) (simp add: Let_def)
    next
      case True
      with cap tmode have cc: cuda_compiled by simp
      let ?t = "GetMutable_TensorCUDA blob"
      let ?e = "WriteTextOutput True ?t output_prefix m"
      from Cons.IH [OF keep(1) keep(2) cap', of "TensorCUDA ?t" "out @ [?e]"]
      obtain ws' evs where
        r: "writeOutput_loop cuda_compiled Serialize run_on_gpu output_prefix text_output
              (pre @ missing # post) (put_blob m (TensorCUDA ?t) ws, out @ [?e])
            = (Inl (EnforceNotMet (''You requested a non-existing blob: '' @ missing)),
               (ws', (out @ [?e]) @ evs))"
        and l: "list_all2 (is_output_for output_prefix) pre evs"
        by auto
      have "list_all2 (is_output_for output_prefix) (m # pre) (?e # evs)"
        using l by (simp add: is_output_for_def)
      with r b tmode True cc show ?thesis
        by (intro exI [of _ ws'] exI [of _ "?e # evs"]) (simp add: Let_def)
    qed
  qed
qed

text \<open>
  C2, as the code has it. The existence check of a name and the output of its blob
  are made in the same pass over the list, name by name. So when the list (not the
  wildcard) has an absent name, \<open>writeOutput\<close> throws "You requested a non-existing
  blob: " followed by the first absent name, after it has written one output for each
  name that precedes it in the list, in order, and nothing for the absent name or the
  names after it. (For text output on the accelerator side this needs a build with
  accelerator support, unless the absent name comes first.)
\<close>

theorem writeOutput_missing_blob:
  assumes names: "split CHR '','' output = pre @ missing # post"
    and star: "output \<noteq> ''*''"
    and present: "\<forall>m \<in> set pre. HasBlob ws m"
    and absent: "\<not> HasBlob ws missing"
    and cap: "pre = [] \<or> \<not> text_output \<or> \<not> run_on_gpu \<or> cuda_compiled"
  shows "\<exists>ws' evs.
           writeOutput cuda_compiled Serialize (ws, out) run_on_gpu output output_folder text_output
           = (Inl (EnforceNotMet (''You requested a non-existing blob: '' @ missing)),
              (ws', out @ evs)) \<and>
           list_all2 (is_output_for (if output_folder \<noteq> [] then output_folder @ ''/'' else ''''))
             pre evs"
proof -
  let ?prefix = "if output_folder \<noteq> [] then output_folder @ ''/'' else ''''"
  from names have ne: "output \<noteq> []"
    by (auto simp: split_def)
  have "writeOutput cuda_compiled Serialize (ws, out) run_on_gpu output output_folder text_output
          = writeOutput_loop cuda_compiled Serialize run_on_gpu ?prefix text_output
              (pre @ missing # post) (ws, out)"
    using ne star names by (simp add: writeOutput_def Let_def)
  with writeOutput_loop_missing [OF present absent cap, of Serialize ?prefix post out]
  show ?thesis by simp
qed

theorem writeOutput_missing_blob_witness:
  "split CHR '','' ''a,b,c'' = [''a''] @ ''b'' # [''c''] \<and>
   HasBlob [(''a'', EmptyBlob), (''c'', EmptyBlob)] ''a'' \<and>
   \<not> HasBlob [(''a'', EmptyBlob), (''c'', EmptyBlob)] ''b'' \<and>
   (\<exists>ws' evs.
      writeOutput False sample_Serialize ([(''a'', EmptyBlob), (''c'', EmptyBlob)], [])
          False ''a,b,c'' ''out'' False
        = (Inl (EnforceNotMet ''You requested a non-existing blob: b''), (ws', evs)) \<and>
      length evs = 1)"
proof -
  have n: "split CHR '','' ''a,b,c'' = [''a''] @ ''b'' # [''c'']"
    by (simp add: split_def)
  have s: "''a,b,c'' \<noteq> ''*''" by simp
  have p: "\<forall>m \<in> set [''a'']. HasBlob [(''a'', EmptyBlob), (''c'', EmptyBlob)] m"
    by (simp add: HasBlob_def GetBlob_def)
  have a: "\<not> HasBlob [(''a'', EmptyBlob), (''c'', EmptyBlob)] ''b''"
    by (simp add: HasBlob_def GetBlob_def)
  have c: "[''a''] = [] \<or> \<not> False \<or> \<not> False \<or> False" by simp
  from writeOutput_missing_blob [OF n s p a c, of sample_Serialize "[]" "''out''"]
  obtain ws' evs where
    "writeOutput False sample_Serialize ([(''a'', EmptyBlob), (''c'', EmptyBlob)], [])
       False ''a,b,c'' ''out'' False
     = (Inl (EnforceNotMet ''You requested a non-existing blob: b''), (ws', evs))"
    and "list_all2 (is_output_for ''out/'') [''a''] evs"
    by auto
  moreover from this(2) have "length evs = 1"
    by (auto dest: list_all2_lengthD)
  ultimately show ?thesis
    using n p a by auto
qed

text \<open>
  C2 as stated fails: with the blob \<open>a\<close> in the store and the requested list
  \<open>a,b\<close>, the writer has written the file \<open>out/a\<close> when it throws for \<open>b\<close>.
\<close>

theorem writeOutput_writes_before_missing_blob:
  "split CHR '','' ''a,b'' = [''a'', ''b''] \<and>
   HasBlob [(''a'', EmptyBlob)] ''a'' \<and>
   \<not> HasBlob [(''a'', EmptyBlob)] ''b'' \<and>
   writeOutput False sample_Serialize ([(''a'', EmptyBlob)], []) False ''a,b'' ''out'' False
     = (Inl (EnforceNotMet ''You requested a non-existing blob: b''),
        ([(''a'', EmptyBlob)], [WriteStringToFile ''blob:a'' ''out/a'']))"
  by (simp add: split_def HasBlob_def GetBlob_def writeOutput_def sample_Serialize_def Let_def)

subsection \<open>Shape and type mode\<close>

lemma GetBlob_CreateBlob:
  "GetBlob (CreateBlob ws k) =
     (if GetBlob ws k = None then (GetBlob ws)(k \<mapsto> EmptyBlob) else GetBlob ws)"
  by (rule ext) (auto simp: CreateBlob_def HasBlob_def GetBlob_def map_add_def split: option.splits)

lemma Tensor_overwrite:
  "mutable_data ty (Resize ds t) = \<lparr>dims = ds, elem_type = Some ty\<rparr>"
  by (cases t) (simp add: mutable_data_def Resize_def)

lemma load_dims_body_ok:
  assumes req: "requested_blob stoi run_on_gpu dims_str type_str = Some B"
    and cap: "run_on_gpu \<longrightarrow> cuda_compiled"
  shows "\<exists>ws'. load_dims_body cuda_compiled stoi run_on_gpu input_name dims_str type_str ws
                 = (Inr (), ws') \<and>
               GetBlob ws' = (GetBlob ws)(input_name \<mapsto> B)"
proof -
  from req obtain ds where p: "parse_dims stoi (split CHR '','' dims_str) = Some ds"
    by (auto simp: requested_blob_def split: option.splits)
  from req p have ty: "type_str = ''uint8_t'' \<or> type_str = ''float''"
    by (auto simp: requested_blob_def Let_def split: if_splits)
  let ?ws1 = "case GetBlob ws input_name of None \<Rightarrow> CreateBlob ws input_name | Some b \<Rightarrow> ws"
  have dom1: "(GetBlob ?ws1)(input_name \<mapsto> X) = (GetBlob ws)(input_name \<mapsto> X)" for X
    by (cases "GetBlob ws input_name") (simp_all add: GetBlob_CreateBlob)
  show ?thesis
  proof (cases run_on_gpu)
    case True
    with cap have cc: cuda_compiled by simp
    from ty show ?thesis
    proof
      assume t: "type_str = ''uint8_t''"
      with req p True have B: "B = TensorCUDA \<lparr>dims = ds, elem_type = Some UInt8\<rparr>"
        by (simp add: requested_blob_def)
      show ?thesis
        using p t True cc dom1
        by (simp add: load_dims_body_def Let_def GetBlob_put_blob B Tensor_overwrite)
    next
      assume t: "type_str = ''float''"
      with req p True have B: "B = TensorCUDA \<lparr>dims = ds, elem_type = Some Float\<rparr>"
        by (simp add: requested_blob_def)
      show ?thesis
        using p t True cc dom1
        by (simp add: load_dims_body_def Let_def GetBlob_put_blob B Tensor_overwrite)
    qed
  next
    case False
    from ty show ?thesis
    proof
      assume t: "type_str = ''uint8_t''"
      with req p False have B: "B = TensorCPU \<lparr>dims = ds, elem_type = Some UInt8\<rparr>"
        by (simp add: requested_blob_def)
      show ?thesis
        using p t False dom1
        by (simp add: load_dims_body_def Let_def GetBlob_put_blob B Tensor_overwrite)
    next
      assume t: "type_str = ''float''"
      with req p False have B: "B = TensorCPU \<lparr>dims = ds, elem_type = Some Float\<rparr>"
        by (simp add: requested_blob_def)
      show ?thesis
        using p t False dom1
        by (simp add: load_dims_body_def Let_def GetBlob_put_blob B Tensor_overwrite)
    qed
  qed
qed

lemma load_dims_loop_done:
  "\<not> i < length input_names \<Longrightarrow>
   load_dims_loop cuda_compiled stoi run_on_gpu input_names input_dims_list input_type_list i ws
     = (Inr (), ws)"
  by (subst load_dims_loop.simps) simp

lemma load_dims_loop_step:
  "i < length input_names \<Longrightarrow>
   load_dims_body cuda_compiled stoi run_on_gpu
     (input_names ! i) (input_dims_list ! i) (input_type_list ! i) ws = (r, ws1) \<Longrightarrow>
   load_dims_loop cuda_compiled stoi run_on_gpu input_names input_dims_list input_type_list i ws
     = (case r of
          Inl e \<Rightarrow> (Inl e, ws1)
        | Inr u \<Rightarrow> load_dims_loop cuda_compiled stoi run_on_gpu
                     input_names input_dims_list input_type_list (i + 1) ws1)"
  by (subst load_dims_loop.simps) (simp split: sum.split)

lemma load_dims_loop_ok:
  assumes cap: "run_on_gpu \<longrightarrow> cuda_compiled"
    and req: "\<forall>j. i \<le> j \<and> j < length input_names \<longrightarrow>
                requested_blob stoi run_on_gpu (input_dims_list ! j) (input_type_list ! j) \<noteq> None"
  shows "\<exists>ws'.
           load_dims_loop cuda_compiled stoi run_on_gpu
             input_names input_dims_list input_type_list i ws = (Inr (), ws') \<and>
           (\<forall>k. k \<notin> set (drop i input_names) \<longrightarrow> GetBlob ws' k = GetBlob ws k) \<and>
           (\<forall>j. i \<le> j \<and> j < length input_names \<and>
                  input_names ! j \<notin> set (drop (Suc j) input_names) \<longrightarrow>
                GetBlob ws' (input_names ! j)
                  = requested_blob stoi run_on_gpu (input_dims_list ! j) (input_type_list ! j))"
  using req
proof (induction "length input_names - i" arbitrary: i ws)
  case 0
  then have "\<not> i < length input_names" by simp
  then show ?case
    by (auto simp: load_dims_loop_done)
next
  case (Suc n)
  then have lt: "i < length input_names" by simp
  let ?name = "input_names ! i"
  from Suc.prems lt obtain B
    where B: "requested_blob stoi run_on_gpu (input_dims_list ! i) (input_type_list ! i) = Some B"
    by blast
  from load_dims_body_ok [OF B cap, of ?name ws] obtain ws1
    where body: "load_dims_body cuda_compiled stoi run_on_gpu
                   ?name (input_dims_list ! i) (input_type_list ! i) ws = (Inr (), ws1)"
      and g1: "GetBlob ws1 = (GetBlob ws)(?name \<mapsto> B)"
    by blast
  have step: "load_dims_loop cuda_compiled stoi run_on_gpu
                input_names input_dims_list input_type_list i ws
              = load_dims_loop cuda_compiled stoi run_on_gpu
                  input_names input_dims_list input_type_list (Suc i) ws1"
    using load_dims_loop_step [OF lt body] by simp
  have n: "n = length input_names - Suc i"
    using Suc.hyps(2) by simp
  have req': "\<forall>j. Suc i \<le> j \<and> j < length input_names \<longrightarrow>
                requested_blob stoi run_on_gpu (input_dims_list ! j) (input_type_list ! j) \<noteq> None"
    using Suc.prems by simp
  from Suc.hyps(1) [OF n req', of ws1] obtain ws'
    where r: "load_dims_loop cuda_compiled stoi run_on_gpu
                input_names input_dims_list input_type_list (Suc i) ws1 = (Inr (), ws')"
      and frame: "\<forall>k. k \<notin> set (drop (Suc i) input_names) \<longrightarrow> GetBlob ws' k = GetBlob ws1 k"
      and later: "\<forall>j. Suc i \<le> j \<and> j < length input_names \<and>
                        input_names ! j \<notin> set (drop (Suc j) input_names) \<longrightarrow>
                      GetBlob ws' (input_names ! j)
                        = requested_blob stoi run_on_gpu (input_dims_list ! j) (input_type_list ! j)"
    by blast
  have dr: "drop i input_names = ?name # drop (Suc i) input_names"
    using lt by (simp add: Cons_nth_drop_Suc)
  have f: "\<forall>k. k \<notin> set (drop i input_names) \<longrightarrow> GetBlob ws' k = GetBlob ws k"
    using frame g1 dr by simp
  have t: "GetBlob ws' (input_names ! j)
             = requested_blob stoi run_on_gpu (input_dims_list ! j) (input_type_list ! j)"
    if j: "i \<le> j" "j < length input_names" "input_names ! j \<notin> set (drop (Suc j) input_names)" for j
  proof (cases "j = i")
    case True
    with j(3) frame g1 B show ?thesis by simp
  next
    case False
    with j(1) have "Suc i \<le> j" by simp
    with later j(2,3) show ?thesis by blast
  qed
  from step r f t show ?case by auto
qed

lemma distinct_not_later:
  assumes "distinct xs" and "j < length xs"
  shows "xs ! j \<notin> set (drop (Suc j) xs)"
proof
  assume "xs ! j \<in> set (drop (Suc j) xs)"
  then obtain k where k: "k < length (drop (Suc j) xs)" "drop (Suc j) xs ! k = xs ! j"
    by (auto simp: in_set_conv_nth)
  then have "Suc j + k < length xs" "xs ! (Suc j + k) = xs ! j"
    by simp_all
  with assms show False
    by (simp add: nth_eq_iff_index_eq)
qed

lemma load_dims_loop_all:
  assumes cap: "run_on_gpu \<longrightarrow> cuda_compiled"
    and req: "\<forall>j < length names.
                requested_blob stoi run_on_gpu (dims_list ! j) (type_list ! j) \<noteq> None"
  shows "\<exists>ws'.
           load_dims_loop cuda_compiled stoi run_on_gpu names dims_list type_list 0 workspace
             = (Inr (), ws') \<and>
           (\<forall>j < length names. names ! j \<notin> set (drop (Suc j) names) \<longrightarrow>
              GetBlob ws' (names ! j)
                = requested_blob stoi run_on_gpu (dims_list ! j) (type_list ! j)) \<and>
           (distinct names \<longrightarrow>
              (\<forall>j < length names.
                 GetBlob ws' (names ! j)
                   = requested_blob stoi run_on_gpu (dims_list ! j) (type_list ! j))) \<and>
           (\<forall>k. k \<notin> set names \<longrightarrow> GetBlob ws' k = GetBlob workspace k)"
proof -
  from req have req0: "\<forall>j. 0 \<le> j \<and> j < length names \<longrightarrow>
                   requested_blob stoi run_on_gpu (dims_list ! j) (type_list ! j) \<noteq> None"
    by simp
  have "\<exists>ws'.
           load_dims_loop cuda_compiled stoi run_on_gpu names dims_list type_list 0 workspace
             = (Inr (), ws') \<and>
           (\<forall>k. k \<notin> set (drop 0 names) \<longrightarrow> GetBlob ws' k = GetBlob workspace k) \<and>
           (\<forall>j. 0 \<le> j \<and> j < length names \<and> names ! j \<notin> set (drop (Suc j) names) \<longrightarrow>
                GetBlob ws' (names ! j)
                  = requested_blob stoi run_on_gpu (dims_list ! j) (type_list ! j))"
    by (rule load_dims_loop_ok [OF cap req0])
  then obtain ws'
    where r: "load_dims_loop cuda_compiled stoi run_on_gpu names dims_list type_list 0 workspace
                = (Inr (), ws')"
      and frame: "\<And>k. k \<notin> set names \<Longrightarrow> GetBlob ws' k = GetBlob workspace k"
      and last: "\<And>j. j < length names \<Longrightarrow> names ! j \<notin> set (drop (Suc j) names) \<Longrightarrow>
                   GetBlob ws' (names ! j)
                     = requested_blob stoi run_on_gpu (dims_list ! j) (type_list ! j)"
    by (elim exE conjE) simp
  have d: "GetBlob ws' (names ! j)
             = requested_blob stoi run_on_gpu (dims_list ! j) (type_list ! j)"
    if "distinct names" "j < length names" for j
    using that last [OF that(2) distinct_not_later [OF that]] by simp
  show ?thesis
  proof (intro exI [of _ ws'] conjI allI impI)
    show "load_dims_loop cuda_compiled stoi run_on_gpu names dims_list type_list 0 workspace
            = (Inr (), ws')"
      by (rule r)
  next
    fix j assume "j < length names" "names ! j \<notin> set (drop (Suc j) names)"
    then show "GetBlob ws' (names ! j)
                 = requested_blob stoi run_on_gpu (dims_list ! j) (type_list ! j)"
      by (rule last)
  next
    fix j assume "distinct names" "j < length names"
    then show "GetBlob ws' (names ! j)
                 = requested_blob stoi run_on_gpu (dims_list ! j) (type_list ! j)"
      by (rule d)
  next
    fix k assume "k \<notin> set names"
    then show "GetBlob ws' k = GetBlob workspace k"
      by (rule frame)
  qed
qed

lemma loadInput_shape_type_unfold:
  assumes i: "input \<noteq> []" and f: "input_file = []"
    and g: "input_dims \<noteq> [] \<or> input_type \<noteq> []"
  shows "loadInput cuda_compiled stoi ReadProtoFromFile Deserialize
           workspace run_on_gpu input input_file input_dims input_type
         = (if length (split CHR '','' input) \<noteq> length (split CHR '';'' input_dims) then
              (Inl (EnforceNotMet ''Input name and dims should have the same number of items.''),
               workspace)
            else if length (split CHR '','' input) \<noteq> length (split CHR '';'' input_type) then
              (Inl (EnforceNotMet ''Input name and type should have the same number of items.''),
               workspace)
            else load_dims_loop cuda_compiled stoi run_on_gpu (split CHR '','' input)
                   (split CHR '';'' input_dims) (split CHR '';'' input_type) 0 workspace)"
proof (cases "input_dims \<noteq> []")
  case True
  with i f show ?thesis by (simp add: loadInput_def Let_def)
next
  case False
  with g have "input_type \<noteq> []" by simp
  with i f False show ?thesis by (simp add: loadInput_def Let_def)
qed

lemma sample_stoi_1: "sample_stoi ''1'' = Some 1"
  by (simp add: sample_stoi_def)

lemma sample_stoi_2: "sample_stoi ''2'' = Some 2"
  by (simp add: sample_stoi_def)

lemma sample_stoi_3: "sample_stoi ''3'' = Some 3"
  by (simp add: sample_stoi_def)

text \<open>
  C3, as the code has it. In shape/type mode (names given, no file list, a dimension
  or type string given):
  \<^item> when the number of dimension groups differs from the number of names,
    \<open>loadInput\<close> throws "Input name and dims should have the same number of items.",
    and when only the number of types differs it throws "Input name and type should
    have the same number of items."; in both cases the workspace is as it was;
  \<^item> when the three lists have the same length, every group parses and every type is
    \<open>uint8_t\<close> or \<open>float\<close> (that is, \<open>requested_blob\<close> is defined for each position), and
    the residency is available, \<open>loadInput\<close> returns normally, and for each position
    whose name does not occur again later in the list, the blob of that name holds a
    tensor with the parsed shape and the requested element type. A name listed more than
    once is materialized once per occurrence into the same blob, so its blob ends with
    the shape and type of its last occurrence. With pairwise distinct names the
    statement holds at every position. Blobs of other names are untouched.
\<close>

theorem loadInput_shape_type_mode:
  assumes n: "names = split CHR '','' input"
    and ne: "names \<noteq> []"
    and nofile: "split CHR '','' input_file = []"
    and given: "split CHR '';'' input_dims \<noteq> [] \<or> split CHR '';'' input_type \<noteq> []"
    and dl: "dims_list = split CHR '';'' input_dims"
    and tl: "type_list = split CHR '';'' input_type"
  shows
    "(length names \<noteq> length dims_list \<longrightarrow>
        loadInput cuda_compiled stoi ReadProtoFromFile Deserialize
          workspace run_on_gpu input input_file input_dims input_type
        = (Inl (EnforceNotMet ''Input name and dims should have the same number of items.''),
           workspace)) \<and>
     (length names = length dims_list \<and> length names \<noteq> length type_list \<longrightarrow>
        loadInput cuda_compiled stoi ReadProtoFromFile Deserialize
          workspace run_on_gpu input input_file input_dims input_type
        = (Inl (EnforceNotMet ''Input name and type should have the same number of items.''),
           workspace)) \<and>
     (length names = length dims_list \<and> length names = length type_list \<and>
      (run_on_gpu \<longrightarrow> cuda_compiled) \<and>
      (\<forall>j < length names.
         requested_blob stoi run_on_gpu (dims_list ! j) (type_list ! j) \<noteq> None) \<longrightarrow>
        (\<exists>ws'.
           loadInput cuda_compiled stoi ReadProtoFromFile Deserialize
             workspace run_on_gpu input input_file input_dims input_type = (Inr (), ws') \<and>
           (\<forall>j < length names. names ! j \<notin> set (drop (Suc j) names) \<longrightarrow>
              GetBlob ws' (names ! j)
                = requested_blob stoi run_on_gpu (dims_list ! j) (type_list ! j)) \<and>
           (distinct names \<longrightarrow>
              (\<forall>j < length names.
                 GetBlob ws' (names ! j)
                   = requested_blob stoi run_on_gpu (dims_list ! j) (type_list ! j))) \<and>
           (\<forall>k. k \<notin> set names \<longrightarrow> GetBlob ws' k = GetBlob workspace k)))"
proof -
  from n ne have i: "input \<noteq> []" by (auto simp: split_eq_Nil_iff)
  from nofile have f: "input_file = []" by (simp add: split_eq_Nil_iff)
  from given have g: "input_dims \<noteq> [] \<or> input_type \<noteq> []" by (simp add: split_eq_Nil_iff)
  have unf: "loadInput cuda_compiled stoi ReadProtoFromFile Deserialize
               workspace run_on_gpu input input_file input_dims input_type
             = (if length names \<noteq> length dims_list then
                  (Inl (EnforceNotMet ''Input name and dims should have the same number of items.''),
                   workspace)
                else if length names \<noteq> length type_list then
                  (Inl (EnforceNotMet ''Input name and type should have the same number of items.''),
                   workspace)
                else load_dims_loop cuda_compiled stoi run_on_gpu names dims_list type_list 0 workspace)"
    unfolding n dl tl by (rule loadInput_shape_type_unfold [OF i f g])
  show ?thesis
  proof (intro conjI impI)
    assume "length names \<noteq> length dims_list"
    then show "loadInput cuda_compiled stoi ReadProtoFromFile Deserialize
          workspace run_on_gpu input input_file input_dims input_type
        = (Inl (EnforceNotMet ''Input name and dims should have the same number of items.''),
           workspace)"
      by (simp only: unf simp_thms if_True if_False)
  next
    assume "length names = length dims_list \<and> length names \<noteq> length type_list"
    then have a1: "length names = length dims_list" and a2: "length names \<noteq> length type_list"
      by simp_all
    show "loadInput cuda_compiled stoi ReadProtoFromFile Deserialize
          workspace run_on_gpu input input_file input_dims input_type
        = (Inl (EnforceNotMet ''Input name and type should have the same number of items.''),
           workspace)"
      unfolding unf using a1 a2 by simp
  next
    assume a: "length names = length dims_list \<and> length names = length type_list \<and>
      (run_on_gpu \<longrightarrow> cuda_compiled) \<and>
      (\<forall>j < length names.
         requested_blob stoi run_on_gpu (dims_list ! j) (type_list ! j) \<noteq> None)"
    then have len: "length names = length dims_list" "length names = length type_list"
      and cap: "run_on_gpu \<longrightarrow> cuda_compiled"
      and req: "\<forall>j < length names.
                  requested_blob stoi run_on_gpu (dims_list ! j) (type_list ! j) \<noteq> None"
      by blast+
    have eq: "loadInput cuda_compiled stoi ReadProtoFromFile Deserialize
                workspace run_on_gpu input input_file input_dims input_type
              = load_dims_loop cuda_compiled stoi run_on_gpu names dims_list type_list 0 workspace"
      unfolding unf using len by simp
    show "\<exists>ws'.
           loadInput cuda_compiled stoi ReadProtoFromFile Deserialize
             workspace run_on_gpu input input_file input_dims input_type = (Inr (), ws') \<and>
           (\<forall>j < length names. names ! j \<notin> set (drop (Suc j) names) \<longrightarrow>
              GetBlob ws' (names ! j)
                = requested_blob stoi run_on_gpu (dims_list ! j) (type_list ! j)) \<and>
           (distinct names \<longrightarrow>
              (\<forall>j < length names.
                 GetBlob ws' (names ! j)
                   = requested_blob stoi run_on_gpu (dims_list ! j) (type_list ! j))) \<and>
           (\<forall>k. k \<notin> set names \<longrightarrow> GetBlob ws' k = GetBlob workspace k)"
      unfolding eq by (rule load_dims_loop_all [OF cap req])
  qed
qed

theorem loadInput_shape_type_mode_witness:
  "split CHR '','' ''data,label'' = [''data'', ''label''] \<and>
   split CHR '';'' ''1,3;2'' = [''1,3'', ''2''] \<and>
   split CHR '';'' ''float;uint8_t'' = [''float'', ''uint8_t''] \<and>
   (\<exists>ws'. loadInput False sample_stoi sample_ReadProtoFromFile sample_Deserialize
            [] False ''data,label'' '''' ''1,3;2'' ''float;uint8_t'' = (Inr (), ws') \<and>
          GetBlob ws' ''data'' = Some (TensorCPU \<lparr>dims = [1, 3], elem_type = Some Float\<rparr>) \<and>
          GetBlob ws' ''label'' = Some (TensorCPU \<lparr>dims = [2], elem_type = Some UInt8\<rparr>)) \<and>
   loadInput False sample_stoi sample_ReadProtoFromFile sample_Deserialize
       [(''w'', EmptyBlob)] False ''data,label'' '''' ''1,3'' ''float;uint8_t''
     = (Inl (EnforceNotMet ''Input name and dims should have the same number of items.''),
        [(''w'', EmptyBlob)]) \<and>
   loadInput False sample_stoi sample_ReadProtoFromFile sample_Deserialize
       [(''w'', EmptyBlob)] False ''data,label'' '''' ''1,3;2'' ''float''
     = (Inl (EnforceNotMet ''Input name and type should have the same number of items.''),
        [(''w'', EmptyBlob)])"
proof -
  have n: "split CHR '','' ''data,label'' = [''data'', ''label'']"
    and d: "split CHR '';'' ''1,3;2'' = [''1,3'', ''2'']"
    and t: "split CHR '';'' ''float;uint8_t'' = [''float'', ''uint8_t'']"
    and d1: "split CHR '';'' ''1,3'' = [''1,3'']"
    and t1: "split CHR '';'' ''float'' = [''float'']"
    and e: "split CHR '','' '''' = []"
    and s13: "split CHR '','' ''1,3'' = [''1'', ''3'']"
    and s2: "split CHR '','' ''2'' = [''2'']"
    by (simp_all add: split_def)
  have r0: "requested_blob sample_stoi False ''1,3'' ''float''
              = Some (TensorCPU \<lparr>dims = [1, 3], elem_type = Some Float\<rparr>)"
    by (simp add: requested_blob_def s13 sample_stoi_1 sample_stoi_3)
  have r1: "requested_blob sample_stoi False ''2'' ''uint8_t''
              = Some (TensorCPU \<lparr>dims = [2], elem_type = Some UInt8\<rparr>)"
    by (simp add: requested_blob_def s2 sample_stoi_2)
  have req: "\<forall>j < length [''data'', ''label''].
               requested_blob sample_stoi False ([''1,3'', ''2''] ! j) ([''float'', ''uint8_t''] ! j)
                 \<noteq> None"
  proof (intro allI impI)
    fix j :: nat
    assume "j < length [''data'', ''label'']"
    then have "j = 0 \<or> j = 1" by auto
    then show "requested_blob sample_stoi False ([''1,3'', ''2''] ! j) ([''float'', ''uint8_t''] ! j)
                 \<noteq> None"
      using r0 r1 by auto
  qed
  have ne: "[''data'', ''label''] \<noteq> []" by simp
  have g: "split CHR '';'' ''1,3;2'' \<noteq> [] \<or> split CHR '';'' ''float;uint8_t'' \<noteq> []"
    and g1: "split CHR '';'' ''1,3'' \<noteq> [] \<or> split CHR '';'' ''float;uint8_t'' \<noteq> []"
    and g2: "split CHR '';'' ''1,3;2'' \<noteq> [] \<or> split CHR '';'' ''float'' \<noteq> []"
    using d d1 by simp_all
  have dist: "distinct [''data'', ''label'']" by simp
  from loadInput_shape_type_mode [where cuda_compiled = False and run_on_gpu = False
        and stoi = sample_stoi and ReadProtoFromFile = sample_ReadProtoFromFile
        and Deserialize = sample_Deserialize and workspace = "[]",
        OF n [symmetric] ne e g d [symmetric] t [symmetric]] req dist
  obtain ws' where
    ok: "loadInput False sample_stoi sample_ReadProtoFromFile sample_Deserialize
           [] False ''data,label'' '''' ''1,3;2'' ''float;uint8_t'' = (Inr (), ws')"
    and all: "\<forall>j < length [''data'', ''label''].
                GetBlob ws' ([''data'', ''label''] ! j)
                  = requested_blob sample_stoi False ([''1,3'', ''2''] ! j) ([''float'', ''uint8_t''] ! j)"
    by auto
  have "GetBlob ws' ([''data'', ''label''] ! 0)
          = requested_blob sample_stoi False ([''1,3'', ''2''] ! 0) ([''float'', ''uint8_t''] ! 0)"
    using all [rule_format, of 0] by simp
  moreover
  have "GetBlob ws' ([''data'', ''label''] ! 1)
          = requested_blob sample_stoi False ([''1,3'', ''2''] ! 1) ([''float'', ''uint8_t''] ! 1)"
    using all [rule_format, of 1] by simp
  ultimately have b: "GetBlob ws' ''data'' = Some (TensorCPU \<lparr>dims = [1, 3], elem_type = Some Float\<rparr>)"
    "GetBlob ws' ''label'' = Some (TensorCPU \<lparr>dims = [2], elem_type = Some UInt8\<rparr>)"
    using r0 r1 by simp_all
  have m1: "loadInput False sample_stoi sample_ReadProtoFromFile sample_Deserialize
       [(''w'', EmptyBlob)] False ''data,label'' '''' ''1,3'' ''float;uint8_t''
     = (Inl (EnforceNotMet ''Input name and dims should have the same number of items.''),
        [(''w'', EmptyBlob)])"
    using loadInput_shape_type_mode [where cuda_compiled = False and run_on_gpu = False
        and stoi = sample_stoi and ReadProtoFromFile = sample_ReadProtoFromFile
        and Deserialize = sample_Deserialize and workspace = "[(''w'', EmptyBlob)]",
        OF n [symmetric] ne e g1 d1 [symmetric] t [symmetric]]
    by simp
  have m2: "loadInput False sample_stoi sample_ReadProtoFromFile sample_Deserialize
       [(''w'', EmptyBlob)] False ''data,label'' '''' ''1,3;2'' ''float''
     = (Inl (EnforceNotMet ''Input name and type should have the same number of items.''),
        [(''w'', EmptyBlob)])"
    using loadInput_shape_type_mode [where cuda_compiled = False and run_on_gpu = False
        and stoi = sample_stoi and ReadProtoFromFile = sample_ReadProtoFromFile
        and Deserialize = sample_Deserialize and workspace = "[(''w'', EmptyBlob)]",
        OF n [symmetric] ne e g2 d [symmetric] t1 [symmetric]]
    by simp
  from n d t ok b m1 m2 show ?thesis by blast
qed

text \<open>
  C3 as stated fails for a name listed twice: with names \<open>a,a\<close>, dimension groups
  \<open>1;2\<close> and types \<open>float;float\<close> (equal lengths, supported types) the call returns
  normally and the one blob \<open>a\<close> has shape \<open>[2]\<close>, not the shape \<open>[1]\<close> of the first
  group.
\<close>

theorem loadInput_duplicate_name_keeps_last:
  "split CHR '','' ''a,a'' = [''a'', ''a''] \<and>
   split CHR '';'' ''1;2'' = [''1'', ''2''] \<and>
   split CHR '';'' ''float;float'' = [''float'', ''float''] \<and>
   requested_blob sample_stoi False ''1'' ''float''
     = Some (TensorCPU \<lparr>dims = [1], elem_type = Some Float\<rparr>) \<and>
   loadInput False sample_stoi sample_ReadProtoFromFile sample_Deserialize
       [] False ''a,a'' '''' ''1;2'' ''float;float''
     = (Inr (), [(''a'', TensorCPU \<lparr>dims = [2], elem_type = Some Float\<rparr>)])"
proof -
  have n: "split CHR '','' ''a,a'' = [''a'', ''a'']"
    and d: "split CHR '';'' ''1;2'' = [''1'', ''2'']"
    and t: "split CHR '';'' ''float;float'' = [''float'', ''float'']"
    and s1: "split CHR '','' ''1'' = [''1'']" and s2: "split CHR '','' ''2'' = [''2'']"
    by (simp_all add: split_def)
  have rq: "requested_blob sample_stoi False ''1'' ''float''
              = Some (TensorCPU \<lparr>dims = [1], elem_type = Some Float\<rparr>)"
    by (simp add: requested_blob_def s1 sample_stoi_1)
  have b1: "load_dims_body False sample_stoi False ''a'' ''1'' ''float'' []
              = (Inr (), [(''a'', TensorCPU \<lparr>dims = [1], elem_type = Some Float\<rparr>)])"
    by (simp add: load_dims_body_def s1 sample_stoi_1 GetBlob_def CreateBlob_def HasBlob_def
        put_blob_def GetMutable_TensorCPU_def new_Tensor_def Resize_def mutable_data_def)
  have b2: "load_dims_body False sample_stoi False ''a'' ''2'' ''float''
              [(''a'', TensorCPU \<lparr>dims = [1], elem_type = Some Float\<rparr>)]
              = (Inr (), [(''a'', TensorCPU \<lparr>dims = [2], elem_type = Some Float\<rparr>)])"
    by (simp add: load_dims_body_def s2 sample_stoi_2 GetBlob_def CreateBlob_def HasBlob_def
        put_blob_def GetMutable_TensorCPU_def new_Tensor_def Resize_def mutable_data_def)
  have l2: "load_dims_loop False sample_stoi False [''a'', ''a''] [''1'', ''2''] [''float'', ''float'']
              (Suc (Suc 0)) [(''a'', TensorCPU \<lparr>dims = [2], elem_type = Some Float\<rparr>)]
            = (Inr (), [(''a'', TensorCPU \<lparr>dims = [2], elem_type = Some Float\<rparr>)])"
    by (simp add: load_dims_loop_done)
  have l1: "load_dims_loop False sample_stoi False [''a'', ''a''] [''1'', ''2''] [''float'', ''float'']
              (Suc 0) [(''a'', TensorCPU \<lparr>dims = [1], elem_type = Some Float\<rparr>)]
            = (Inr (), [(''a'', TensorCPU \<lparr>dims = [2], elem_type = Some Float\<rparr>)])"
    using load_dims_loop_step [of "Suc 0" "[''a'', ''a'']" False sample_stoi False "[''1'', ''2'']"
        "[''float'', ''float'']" "[(''a'', TensorCPU \<lparr>dims = [1], elem_type = Some Float\<rparr>)]"
        "Inr ()" "[(''a'', TensorCPU \<lparr>dims = [2], elem_type = Some Float\<rparr>)]"] b2 l2
    by simp
  have l0: "load_dims_loop False sample_stoi False [''a'', ''a''] [''1'', ''2''] [''float'', ''float'']
              0 []
            = (Inr (), [(''a'', TensorCPU \<lparr>dims = [2], elem_type = Some Float\<rparr>)])"
    using load_dims_loop_step [of 0 "[''a'', ''a'']" False sample_stoi False "[''1'', ''2'']"
        "[''float'', ''float'']" "[]"
        "Inr ()" "[(''a'', TensorCPU \<lparr>dims = [1], elem_type = Some Float\<rparr>)]"] b1 l1
    by simp
  have "loadInput False sample_stoi sample_ReadProtoFromFile sample_Deserialize
          [] False ''a,a'' '''' ''1;2'' ''float;float''
        = (Inr (), [(''a'', TensorCPU \<lparr>dims = [2], elem_type = Some Float\<rparr>)])"
    using loadInput_shape_type_unfold [of "''a,a''" "''''" "''1;2''" "''float;float''" False
        sample_stoi sample_ReadProtoFromFile sample_Deserialize "[]" False] n d t l0
    by simp
  with n d t rq show ?thesis by simp
qed

end
